theory Spec2Isabelle
  imports Main "HOL-Library.Char_ord" "HOL-Library.List_Lexorder" "HOL-Library.Multiset"
begin

section \<open>Python values and exceptions\<close>

text \<open>
  The exceptions that can leave the calls made by \<^verbatim>\<open>comission/CMS/WordPress.py\<close>.
  \<^verbatim>\<open>HTTPError\<close> is what \<^verbatim>\<open>response.raise_for_status()\<close> raises (it carries the status
  code); \<^verbatim>\<open>ConnectionError\<close> stands for every exception \<^verbatim>\<open>requests.get\<close> raises when
  no response arrives (connection refused, timeout): these are subclasses of
  \<^verbatim>\<open>RequestException\<close> but not of \<^verbatim>\<open>HTTPError\<close>.
\<close>

datatype py_exn =
    HTTPError nat
  | ConnectionError
  | KeyError
  | TypeError
  | AttributeError
  | StopIteration
  | UnboundLocalError
  | IndexError
  | FileNotFoundError

section \<open>distutils.version.LooseVersion\<close>

text \<open>
  \<^verbatim>\<open>check_vulns_addon\<close> compares versions with \<^verbatim>\<open>LooseVersion(a) < LooseVersion(b)\<close>
  of the Python standard library (\<^verbatim>\<open>distutils/version.py\<close>):
  \<^verbatim>\<open>
    component_re = re.compile(r'(\d+ | [a-z]+ | \.)', re.VERBOSE)
    def __init__ (self, vstring=None):
        if vstring:
            self.parse(vstring)
    def parse (self, vstring):
        self.vstring = vstring
        components = [x for x in self.component_re.split(vstring)
                              if x and x != '.']
        for i, obj in enumerate(components):
            try:
                components[i] = int(obj)
            except ValueError:
                pass
        self.version = components
    def _cmp (self, other):
        ...
        if self.version == other.version:
            return 0
        if self.version < other.version:
            return -1
        if self.version > other.version:
            return 1
    def __lt__(self, other):
        c = self._cmp(other)
        ...
        return c < 0
  \<close>
  Strings are lists of 8-bit characters here, so \<^verbatim>\<open>\d\<close> is the ASCII digits.
\<close>

datatype component = Num nat | Str string

definition is_digit :: "char \<Rightarrow> bool" where
  "is_digit c = (c \<in> set ''0123456789'')"

definition is_lower :: "char \<Rightarrow> bool" where
  "is_lower c = (c \<in> set ''abcdefghijklmnopqrstuvwxyz'')"

text \<open>
  \<^verbatim>\<open>component_re.split(vstring)\<close>: the pattern has one capturing group, so the result
  alternates the text between two matches (possibly empty) and the matched separator.
  A match is a maximal run of digits, a maximal run of lower-case letters, or one dot;
  \<open>txt\<close> collects the characters since the last match.
\<close>

function component_re_split :: "string \<Rightarrow> string \<Rightarrow> string list" where
  "component_re_split txt [] = [txt]"
| "component_re_split txt (c # cs) =
     (if is_digit c then
        txt # (c # takeWhile is_digit cs) # component_re_split [] (dropWhile is_digit cs)
      else if is_lower c then
        txt # (c # takeWhile is_lower cs) # component_re_split [] (dropWhile is_lower cs)
      else if c = CHR ''.'' then
        txt # [c] # component_re_split [] cs
      else component_re_split (txt @ [c]) cs)"
  by pat_completeness auto
termination
  by (relation "measure (\<lambda>(txt, s). length s)")
     (auto simp: le_imp_less_Suc length_dropWhile_le)

text \<open>\<^verbatim>\<open>int(obj)\<close> on a run of decimal digits.\<close>

definition int_of :: "string \<Rightarrow> nat" where
  "int_of s = foldl (\<lambda>n c. 10 * n + (of_char c - 48)) 0 s"

text \<open>
  \<^verbatim>\<open>try: components[i] = int(obj) except ValueError: pass\<close>. The pieces that reach this
  point are digit runs, letter runs and runs without any digit. \<^verbatim>\<open>int\<close> raises
  \<^verbatim>\<open>ValueError\<close> on the last two kinds, and also on a digit run of more characters than
  the interpreter's limit for the conversion of a string to an integer
  (\<^verbatim>\<open>sys.int_info.default_max_str_digits\<close>, 4300; leading zeros count): such a run stays
  a string.
\<close>

definition max_str_digits :: nat where
  "max_str_digits = 4300"

definition to_component :: "string \<Rightarrow> component" where
  "to_component obj =
     (if obj \<noteq> [] \<and> list_all is_digit obj \<and> length obj \<le> max_str_digits then Num (int_of obj)
      else Str obj)"

definition LooseVersion_parse :: "string \<Rightarrow> component list" where
  "LooseVersion_parse vstring =
     map to_component (filter (\<lambda>x. x \<noteq> [] \<and> x \<noteq> ''.'') (component_re_split [] vstring))"

text \<open>
  The object built by \<^verbatim>\<open>LooseVersion(vstring)\<close> is represented by its \<^verbatim>\<open>version\<close>
  attribute; the attribute is missing (\<open>None\<close>) when \<^verbatim>\<open>vstring\<close> is \<^verbatim>\<open>None\<close> or empty.
\<close>

definition LooseVersion :: "string option \<Rightarrow> component list option" where
  "LooseVersion vstring =
     (case vstring of
        None \<Rightarrow> None
      | Some s \<Rightarrow> if s = [] then None else Some (LooseVersion_parse s))"

text \<open>
  Python's \<^verbatim>\<open><\<close> on two components: integers by value, strings by code point,
  \<^verbatim>\<open>TypeError\<close> for an integer against a string.
\<close>

fun component_lt :: "component \<Rightarrow> component \<Rightarrow> py_exn + bool" where
  "component_lt (Num a) (Num b) = Inr (a < b)"
| "component_lt (Str a) (Str b) = Inr (a < b)"
| "component_lt (Num a) (Str b) = Inl TypeError"
| "component_lt (Str a) (Num b) = Inl TypeError"

text \<open>
  Python's \<^verbatim>\<open><\<close> on two lists: the first position where the elements are not equal
  decides (equality of an integer and a string is \<^verbatim>\<open>False\<close> and does not raise); when
  one list is a prefix of the other the shorter one is smaller.
\<close>

fun list_lt :: "component list \<Rightarrow> component list \<Rightarrow> py_exn + bool" where
  "list_lt [] [] = Inr False"
| "list_lt [] (y # ys) = Inr True"
| "list_lt (x # xs) [] = Inr False"
| "list_lt (x # xs) (y # ys) = (if x = y then list_lt xs ys else component_lt x y)"

text \<open>
  \<^verbatim>\<open>_cmp\<close> reads \<^verbatim>\<open>self.version\<close> and \<^verbatim>\<open>other.version\<close> first (\<^verbatim>\<open>AttributeError\<close> when
  one is missing). When none of its three tests holds it returns \<^verbatim>\<open>None\<close>, and the
  \<^verbatim>\<open>c < 0\<close> of \<^verbatim>\<open>__lt__\<close> raises \<^verbatim>\<open>TypeError\<close>.
\<close>

definition LooseVersion_cmp ::
  "component list option \<Rightarrow> component list option \<Rightarrow> py_exn + int" where
  "LooseVersion_cmp self other =
     (case self of
        None \<Rightarrow> Inl AttributeError
      | Some v \<Rightarrow>
          (case other of
             None \<Rightarrow> Inl AttributeError
           | Some w \<Rightarrow>
               if v = w then Inr 0
               else (case list_lt v w of
                       Inl e \<Rightarrow> Inl e
                     | Inr True \<Rightarrow> Inr (- 1)
                     | Inr False \<Rightarrow>
                         (case list_lt w v of
                            Inl e \<Rightarrow> Inl e
                          | Inr True \<Rightarrow> Inr 1
                          | Inr False \<Rightarrow> Inl TypeError))))"

definition LooseVersion_lt ::
  "component list option \<Rightarrow> component list option \<Rightarrow> py_exn + bool" where
  "LooseVersion_lt self other =
     (case LooseVersion_cmp self other of Inl e \<Rightarrow> Inl e | Inr c \<Rightarrow> Inr (c < 0))"

text \<open>
  A well-formed dotted-numeric version string is a non-empty sequence of non-empty digit
  runs joined by single dots, each run short enough for \<^verbatim>\<open>int\<close>; \<open>dotted\<close> writes the
  string of a sequence of runs.
\<close>

fun dotted :: "string list \<Rightarrow> string" where
  "dotted [] = []"
| "dotted [d] = d"
| "dotted (d # e # ds) = d @ ''.'' @ dotted (e # ds)"

definition digit_runs :: "string list \<Rightarrow> bool" where
  "digit_runs ds =
     (ds \<noteq> [] \<and>
      list_all (\<lambda>d. d \<noteq> [] \<and> list_all is_digit d \<and> length d \<le> max_str_digits) ds)"

section \<open>Paths, logging and small helpers\<close>

text \<open>
  \<^verbatim>\<open>os.path.join(a, *p)\<close> of \<^verbatim>\<open>posixpath\<close>: an absolute component discards what came
  before it, otherwise a separator is inserted unless the path so far is empty or ends
  with one.
\<close>

fun os_path_join :: "string \<Rightarrow> string list \<Rightarrow> string" where
  "os_path_join path [] = path"
| "os_path_join path (b # p) =
     os_path_join
       (if b \<noteq> [] \<and> hd b = CHR ''/'' then b
        else if path = [] \<or> last path = CHR ''/'' then path @ b
        else path @ ''/'' @ b) p"

text \<open>
  \<^verbatim>\<open>log.print_cms(type, msg, msg_default, level)\<close>: every function returns the entries
  it prints, in order.
\<close>

type_synonym log_entry = "string \<times> string \<times> string \<times> nat"

definition print_cms :: "string \<Rightarrow> string \<Rightarrow> string \<Rightarrow> nat \<Rightarrow> log_entry list" where
  "print_cms ty msg msg_default level = [(ty, msg, msg_default, level)]"

text \<open>\<^verbatim>\<open>str(n)\<close> for a non-negative integer, and \<^verbatim>\<open>str(x)\<close> for a string or \<^verbatim>\<open>None\<close>.\<close>

fun str_nat :: "nat \<Rightarrow> string" where
  "str_nat n =
     (if n < 10 then [char_of (48 + n)]
      else str_nat (n div 10) @ [char_of (48 + n mod 10)])"

declare str_nat.simps [simp del]

definition str_opt :: "string option \<Rightarrow> string" where
  "str_opt x = (case x of None \<Rightarrow> ''None'' | Some s \<Rightarrow> s)"

text \<open>A value that is either a string or a list (\<^verbatim>\<open>Union[str, List]\<close>).\<close>

datatype 'a str_or_list = PyStr string | PyList "'a list"

section \<open>Data model\<close>

text \<open>
  One entry of the \<^verbatim>\<open>vulnerabilities\<close> array of the vulnerability database
  (\<^verbatim>\<open>vuln["id"]\<close>, \<^verbatim>\<open>vuln["title"]\<close>, \<^verbatim>\<open>vuln["vuln_type"]\<close>, \<^verbatim>\<open>vuln["fixed_in"]\<close>);
  \<^verbatim>\<open>fixed_in\<close> is a string or JSON \<^verbatim>\<open>null\<close>.
\<close>

record vuln =
  vuln_id :: nat
  title :: string
  vuln_type :: string
  fixed_in :: "string option"

text \<open>The dictionary \<^verbatim>\<open>vuln_details\<close> with its keys name, link, type, poc, fixed_in.\<close>

record vuln_details =
  vd_name :: string
  vd_link :: string
  vd_type :: string
  vd_poc :: string
  vd_fixed_in :: "string option"

text \<open>
  The dictionary \<^verbatim>\<open>addon\<close> built by \<^verbatim>\<open>addon_analysis\<close>; the key \<^verbatim>\<open>"type"\<close> is the field
  \<open>type'\<close>, the key \<^verbatim>\<open>"notes"\<close> is the field \<open>addon_notes\<close>, and \<^verbatim>\<open>"mu"\<close> is
  absent (\<open>None\<close>) until it is set. An alteration is represented by the path it reports.
\<close>

record addon =
  type' :: string
  status :: string
  name :: string
  version :: string
  last_version :: string
  last_release_date :: string
  link :: string
  altered :: string
  cve :: string
  vulns :: "vuln_details list"
  addon_notes :: string
  alterations :: "string list"
  filename :: string
  path :: string
  mu :: "string option"

text \<open>A file of a directory tree: relative path, bytes, and filesystem metadata.\<close>

record file_entry =
  relpath :: string
  data :: string
  mtime :: nat
  mode :: nat

text \<open>
  A response of \<^verbatim>\<open>requests\<close>, with the views the code takes of it:
  \<^verbatim>\<open>response.text\<close>; \<^verbatim>\<open>response.json()\<close> as the map from a product key to its
  \<^verbatim>\<open>"vulnerabilities"\<close> array (a missing key is the \<^verbatim>\<open>KeyError\<close> of
  \<^verbatim>\<open>page_json[key]\<close>); \<^verbatim>\<open>response.content\<close> as the archive it encodes, a map from a
  top-level directory name to the files unpacked below it. Bodies that are not JSON or
  not a zip archive are not part of the model.
\<close>

record response =
  status_code :: nat
  body_text :: string
  json :: "string \<rightharpoonup> vuln list"
  content :: "string \<rightharpoonup> file_entry list"

datatype http_result = Response response | NoResponse

record request =
  url :: string
  headers :: "(string \<times> string) list"
  allow_redirects :: bool

text \<open>The compiled patterns held by the \<^verbatim>\<open>WP\<close> object.\<close>

datatype regex =
    regex_version_core
  | regex_version_addon
  | regex_version_addon_web_plugin
  | regex_version_addon_web_theme
  | regex_date_last_release_plugin
  | regex_date_last_release_theme

text \<open>
  Everything outside the program, as the program observes it:
  \<^item> \<open>requests_get\<close>: \<^verbatim>\<open>requests.get\<close>, a response or no response at all;
  \<^item> \<open>re_search\<close>: \<^verbatim>\<open>pattern.search(s)\<close>, giving \<^verbatim>\<open>group(1)\<close> of the first match;
  \<^item> \<open>isfile\<close>: \<^verbatim>\<open>os.path.isfile\<close>;
  \<^item> \<open>listdirs\<close>: \<^verbatim>\<open>next(os.walk(p))[1]\<close>, the sub-directory names of \<open>p\<close>; \<open>None\<close> when
    \<^verbatim>\<open>os.walk(p)\<close> yields nothing (\<open>p\<close> cannot be listed), so that \<^verbatim>\<open>next\<close> raises;
  \<^item> \<open>walk\<close>: the files below a directory in the order \<^verbatim>\<open>os.walk\<close> meets them; \<open>None\<close>
    when the path is not a directory;
  \<^item> \<open>sha1\<close>: \<^verbatim>\<open>hashlib.sha1(bytes).hexdigest()\<close>;
  \<^item> \<open>get_poc\<close>: the truth value of \<^verbatim>\<open>uCMS.get_poc(url)\<close>;
  \<^item> \<open>diff_files\<close>: what \<^verbatim>\<open>uCMS.diff_files(dircmp(a, b, ignored), alterations, target)\<close>
    appends to \<^verbatim>\<open>alterations\<close>, given both trees, the ignored names and the target;
  \<^item> \<open>fetch_addons\<close>: \<^verbatim>\<open>uCMS.fetch_addons(addons_path, key)\<close>;
  \<^item> \<open>marker_version\<close>: the version found in a marker file (file path, pattern,
    characters to strip), \<open>None\<close> when there is none;
  \<^item> \<open>TempDir_create\<close>: the directory given by \<^verbatim>\<open>uCMS.TempDir.create()\<close>.
\<close>

record world =
  requests_get :: "request \<Rightarrow> http_result"
  re_search :: "regex \<Rightarrow> string \<Rightarrow> string option"
  isfile :: "string \<Rightarrow> bool"
  listdirs :: "string \<Rightarrow> string list option"
  walk :: "string \<Rightarrow> file_entry list option"
  sha1 :: "string \<Rightarrow> string"
  get_poc :: "string \<Rightarrow> bool"
  diff_files :: "file_entry list \<Rightarrow> file_entry list \<Rightarrow> string list \<Rightarrow> string \<Rightarrow> string list"
  fetch_addons :: "string \<Rightarrow> string \<Rightarrow> string list"
  marker_version :: "string \<Rightarrow> regex \<Rightarrow> string \<Rightarrow> string option"
  TempDir_create :: string

text \<open>The attributes of the \<^verbatim>\<open>WP\<close> object that the analysis reads and writes.\<close>

record WP =
  self_dir_path :: string
  self_wp_content :: string
  self_plugins_dir :: string
  self_themes_dir :: string
  self_wpvulndb_token :: string
  self_plugins :: "addon list"
  self_themes :: "addon list"

definition site_url :: string where
  "site_url = ''https://wordpress.org/''"

definition download_addon_url :: string where
  "download_addon_url = ''https://downloads.wordpress.org/plugin/''"

definition cve_ref_url :: string where
  "cve_ref_url = ''https://wpvulndb.com/api/v3/''"

definition url_details :: string where
  "url_details = ''https://wpvulndb.com/vulnerabilities/''"

text \<open>
  \<^verbatim>\<open>response.raise_for_status()\<close>: an \<^verbatim>\<open>HTTPError\<close> for a status from 400 to 599,
  nothing otherwise.
\<close>

definition raise_for_status :: "response \<Rightarrow> py_exn option" where
  "raise_for_status r =
     (if 400 \<le> status_code r \<and> status_code r < 600 then Some (HTTPError (status_code r))
      else None)"

section \<open>checksumdir.dirhash\<close>

text \<open>
  \<^verbatim>\<open>dirhash(dirname, "sha1")\<close> of the \<^verbatim>\<open>checksumdir\<close> package: it raises \<^verbatim>\<open>TypeError\<close>
  when \<^verbatim>\<open>dirname\<close> is not a directory, hashes the bytes of every file met by
  \<^verbatim>\<open>os.walk\<close> (\<^verbatim>\<open>_filehash\<close>), and hashes the sorted file digests one after the other
  (\<^verbatim>\<open>_reduce_hash\<close>: \<^verbatim>\<open>for hashvalue in sorted(hashlist): hasher.update(hashvalue)\<close>).
  With the default \<^verbatim>\<open>include_paths=False\<close> no file name enters the digest. Files are
  taken to be readable.
\<close>

definition filehash :: "(string \<Rightarrow> string) \<Rightarrow> file_entry \<Rightarrow> string" where
  "filehash hashfunc f = hashfunc (data f)"

definition reduce_hash :: "(string \<Rightarrow> string) \<Rightarrow> string list \<Rightarrow> string" where
  "reduce_hash hashfunc hashlist = hashfunc (concat (sort hashlist))"

definition dirhash :: "(string \<Rightarrow> string) \<Rightarrow> file_entry list option \<Rightarrow> py_exn + string" where
  "dirhash hashfunc tree =
     (case tree of
        None \<Rightarrow> Inl TypeError
      | Some files \<Rightarrow> Inr (reduce_hash hashfunc (map (filehash hashfunc) files)))"

section \<open>The WP object\<close>

subsection \<open>get_wp_content and the constructor\<close>

text \<open>
  The loop \<^verbatim>\<open>for dirname in next(os.walk(dir_path))[1]\<close> of \<^verbatim>\<open>get_wp_content\<close>:
  \<^verbatim>\<open>tocheck.issubset(next(os.walk(os.path.join(dir_path, dirname)))[1])\<close> appends
  \<^verbatim>\<open>dirname\<close> to \<^verbatim>\<open>suspects\<close>; \<^verbatim>\<open>next\<close> on an empty walk raises \<^verbatim>\<open>StopIteration\<close>.
\<close>

fun wp_content_suspects ::
  "world \<Rightarrow> string \<Rightarrow> string list \<Rightarrow> string list \<Rightarrow> py_exn + string list" where
  "wp_content_suspects w dir_path [] suspects = Inr suspects"
| "wp_content_suspects w dir_path (dirname # rest) suspects =
     (case listdirs w (os_path_join dir_path [dirname]) of
        None \<Rightarrow> Inl StopIteration
      | Some sub \<Rightarrow>
          wp_content_suspects w dir_path rest
            (if {''plugins'', ''themes''} \<subseteq> set sub then suspects @ [dirname] else suspects))"

definition get_wp_content :: "world \<Rightarrow> string \<Rightarrow> log_entry list \<times> (py_exn + string list)" where
  "get_wp_content w dir_path =
     (case listdirs w dir_path of
        None \<Rightarrow> ([], Inl StopIteration)
      | Some dirs \<Rightarrow>
          (case wp_content_suspects w dir_path dirs [] of
             Inl e \<Rightarrow> ([], Inl e)
           | Inr suspects \<Rightarrow>
               ((if length suspects > 1 then
                   print_cms ''warning''
                     (''[+] Several directories are suspected to be wp-contents. '' @
                      ''Please check and if needed force one with --wp-content.'') [] 0
                   @ concat (map (\<lambda>path. print_cms ''info'' (''[+] '' @ path) [] 1) suspects)
                 else []),
                Inr (if length suspects = 0 then suspects @ [''wp-content''] else suspects))))"

text \<open>
  \<^verbatim>\<open>WP.__init__\<close>, for the attributes of \<open>WP\<close>: an empty \<^verbatim>\<open>wp_content\<close> is replaced by
  \<^verbatim>\<open>self.get_wp_content(dir_path)[0]\<close> (an \<^verbatim>\<open>IndexError\<close> on an empty list), empty
  plugin and theme directories by the ones below \<^verbatim>\<open>wp_content\<close>.
\<close>

definition WP_init ::
  "world \<Rightarrow> string \<Rightarrow> string \<Rightarrow> string \<Rightarrow> string \<Rightarrow> string \<Rightarrow> log_entry list \<times> (py_exn + WP)" where
  "WP_init w dir_path wp_content plugins_dir themes_dir wpvulndb_token =
     (let finish = (\<lambda>wpc.
            \<lparr>self_dir_path = dir_path, self_wp_content = wpc,
             self_plugins_dir =
               (if plugins_dir = [] then os_path_join dir_path [wpc, ''plugins'']
                else plugins_dir),
             self_themes_dir =
               (if themes_dir = [] then os_path_join dir_path [wpc, ''themes'']
                else themes_dir),
             self_wpvulndb_token = wpvulndb_token, self_plugins = [], self_themes = []\<rparr>)
      in if wp_content = [] then
           (case get_wp_content w dir_path of
              (lg, Inl e) \<Rightarrow> (lg, Inl e)
            | (lg, Inr suspects) \<Rightarrow>
                (case suspects of
                   [] \<Rightarrow> (lg, Inl IndexError)
                 | first # _ \<Rightarrow> (lg, Inr (finish first))))
         else ([], Inr (finish wp_content)))"

subsection \<open>get_addon_main_file\<close>


subsection \<open>get_addon_version\<close>



subsection \<open>get_addon_last_version\<close>

text \<open>
  The result of a stage is the record as the stage leaves it, the entries it logs, and
  either an exception that leaves the stage or the pair it returns.
\<close>

text \<open>
  \<^verbatim>\<open>releases_url\<close>, and the pair \<^verbatim>\<open>version_web_regexp\<close>, \<^verbatim>\<open>date_last_release_regexp\<close>
  chosen by the \<^verbatim>\<open>if\<close>/\<^verbatim>\<open>elif\<close> on the type: for any other type both names stay
  unbound.
\<close>

definition releases_url :: "addon \<Rightarrow> string" where
  "releases_url addon = site_url @ type' addon @ ''/'' @ name addon @ ''/''"

definition web_regexps :: "addon \<Rightarrow> (regex \<times> regex) option" where
  "web_regexps addon =
     (if type' addon = ''plugins'' then
        Some (regex_version_addon_web_plugin, regex_date_last_release_plugin)
      else if type' addon = ''themes'' then
        Some (regex_version_addon_web_theme, regex_date_last_release_theme)
      else None)"

definition get_addon_last_version ::
  "world \<Rightarrow> addon \<Rightarrow> addon \<times> log_entry list \<times> (py_exn + string \<times> py_exn option)" where
  "get_addon_last_version w addon =
     (case requests_get w \<lparr>url = releases_url addon, headers = [], allow_redirects = False\<rparr> of
           NoResponse \<Rightarrow> (addon, [], Inl ConnectionError)
         | Response response \<Rightarrow>
             (case raise_for_status response of
                Some e \<Rightarrow>
                  (let msg = ''Addon not on official site. Search manually !''
                   in (addon\<lparr>addon_notes := msg\<rparr>,
                       print_cms ''alert'' (''[-] '' @ msg) [] 1,
                       Inr ([], Some e)))
              | None \<Rightarrow>
                  if status_code response = 200 then
                    (case web_regexps addon of
                       None \<Rightarrow> (addon, [], Inl UnboundLocalError)
                     | Some (version_web_regexp, date_last_release_regexp) \<Rightarrow>
                         (case re_search w version_web_regexp (body_text response) of
                            None \<Rightarrow> (addon, [], Inr (last_version addon, None))
                          | Some last_version_result \<Rightarrow>
                              (case re_search w date_last_release_regexp (body_text response) of
                                 None \<Rightarrow> (addon, [], Inr (last_version addon, None))
                               | Some date_last_release_result \<Rightarrow>
                                   (let addon' = addon
                                          \<lparr>last_version := last_version_result,
                                           last_release_date :=
                                             takeWhile (\<lambda>c. c \<noteq> CHR ''T'') date_last_release_result,
                                           link := releases_url addon\<rparr>
                                    in (addon',
                                        (if last_version addon' = version addon' then
                                           print_cms ''good'' ''Up to date !'' [] 1
                                         else
                                           print_cms ''alert'' ''Outdated, last version: ''
                                             (last_version addon' @ '' ( '' @
                                              last_release_date addon' @ '' )'' @
                                              [CHR 0x0A, CHR 0x09] @ ''Check : '' @ releases_url addon) 1),
                                        Inr (last_version addon', None))))))
                  else (addon, [], Inr (last_version addon, None))))"

subsection \<open>check_addon_alteration\<close>

text \<open>
  The installed tree is read at \<^verbatim>\<open>addon_path\<close>; the reference tree is the directory
  named after the addon in the unpacked archive (\<^verbatim>\<open>ref_dir\<close>). Each extraction is taken
  to see only its own archive below the temporary directory.
\<close>

definition addon_url :: "addon \<Rightarrow> string" where
  "addon_url addon =
     (if version addon = ''trunk'' then download_addon_url @ name addon @ ''.zip''
      else download_addon_url @ name addon @ ''.'' @ version addon @ ''.zip'')"

definition ignored :: "string list" where
  "ignored = [''css'', ''img'', ''js'', ''fonts'', ''images'']"

definition check_addon_alteration ::
  "world \<Rightarrow> addon \<Rightarrow> string \<Rightarrow> string \<Rightarrow>
     addon \<times> log_entry list \<times> (py_exn + string \<times> py_exn option)" where
  "check_addon_alteration w addon addon_path temp_directory =
     (let lg0 = print_cms ''default'' (''To download the addon: '' @ addon_url addon) [] 1
      in case requests_get w \<lparr>url = addon_url addon, headers = [], allow_redirects = True\<rparr> of
           NoResponse \<Rightarrow> (addon, lg0, Inl ConnectionError)
         | Response response \<Rightarrow>
             (case raise_for_status response of
                Some e \<Rightarrow>
                  (let msg = ''The download link is not standard. Search manually !''
                   in (addon\<lparr>addon_notes := msg\<rparr>,
                       lg0 @ print_cms ''alert'' msg [] 1,
                       Inr (msg, Some e)))
              | None \<Rightarrow>
                  if status_code response = 200 then
                    (case dirhash (sha1 w) (walk w addon_path) of
                       Inl e \<Rightarrow> (addon, lg0, Inl e)
                     | Inr project_dir_hash \<Rightarrow>
                         (let ref_dir = os_path_join temp_directory [name addon];
                              ref_tree = content response (name addon)
                          in case dirhash (sha1 w) ref_tree of
                               Inl e \<Rightarrow> (addon, lg0, Inl e)
                             | Inr ref_dir_hash \<Rightarrow>
                                 (let lg_archive = print_cms ''info''
                                        (''[+] For further analysis, archive downloaded here : '' @ ref_dir)
                                        [] 1
                                  in if project_dir_hash = ref_dir_hash then
                                       (addon\<lparr>altered := ''NO''\<rparr>,
                                        lg0 @ print_cms ''good'' (''Different from sources : '' @ ''NO'') [] 1
                                          @ lg_archive,
                                        Inr (''NO'', None))
                                     else
                                       (let found =
                                              (case (walk w addon_path, ref_tree) of
                                                 (Some installed, Some reference) \<Rightarrow>
                                                   diff_files w installed reference ignored addon_path
                                               | _ \<Rightarrow> [])
                                        in (addon\<lparr>alterations := alterations addon @ found,
                                                   altered := ''YES''\<rparr>,
                                            lg0 @ print_cms ''alert'' (''Different from sources : '' @ ''YES'') [] 1
                                              @ lg_archive,
                                            Inr (''YES'', None))))))
                  else (addon, lg0, Inr ([], None))))"

subsection \<open>check_vulns_core\<close>

text \<open>The body of \<^verbatim>\<open>for vuln in vulns\<close> in \<^verbatim>\<open>check_vulns_core\<close>, for one entry.\<close>

definition core_vuln_details :: "world \<Rightarrow> vuln \<Rightarrow> vuln_details" where
  "core_vuln_details w vuln =
     (let vuln_url = url_details @ str_nat (vuln_id vuln)
      in \<lparr>vd_name = title vuln, vd_link = vuln_url, vd_type = vuln_type vuln,
          vd_poc = (if get_poc w vuln_url then ''YES'' else ''CHECK''),
          vd_fixed_in = fixed_in vuln\<rparr>)"

fun core_vulns_loop ::
  "world \<Rightarrow> vuln list \<Rightarrow> vuln_details list \<Rightarrow> log_entry list \<Rightarrow> vuln_details list \<times> log_entry list" where
  "core_vulns_loop w [] vulns_details lg = (vulns_details, lg)"
| "core_vulns_loop w (vuln # rest) vulns_details lg =
     core_vulns_loop w rest (vulns_details @ [core_vuln_details w vuln])
       (lg @ print_cms ''alert'' (title vuln) [] 1
           @ print_cms ''info'' (''[+] Fixed in version '' @ str_opt (fixed_in vuln)) [] 1)"

text \<open>
  The request of \<^verbatim>\<open>check_vulns_core\<close>: the URL holds the version without its dots
  (\<^verbatim>\<open>version_core.replace(".", "")\<close>), the header holds the token.
\<close>

definition core_vulns_request :: "WP \<Rightarrow> string \<Rightarrow> request" where
  "core_vulns_request self version_core =
     (let version_nodots = filter (\<lambda>c. c \<noteq> CHR ''.'') version_core;
          token_header = ''Token token='' @ self_wpvulndb_token self
      in \<lparr>url = cve_ref_url @ ''wordpresses/'' @ version_nodots,
          headers = [(''Authorization'', token_header)], allow_redirects = True\<rparr>)"

definition check_vulns_core ::
  "world \<Rightarrow> WP \<Rightarrow> string \<Rightarrow>
     log_entry list \<times> (py_exn + vuln_details str_or_list \<times> py_exn option)" where
  "check_vulns_core w self version_core =
     (case requests_get w (core_vulns_request self version_core) of
           NoResponse \<Rightarrow> ([], Inl ConnectionError)
         | Response response \<Rightarrow>
             (case raise_for_status response of
                Some e \<Rightarrow> (print_cms ''info'' ''No entry on wpvulndb.'' [] 1, Inr (PyStr [], Some e))
              | None \<Rightarrow>
                  if status_code response = 200 then
                    (case json response version_core of
                       None \<Rightarrow> ([], Inl KeyError)
                     | Some vulns' \<Rightarrow>
                         (let lg0 = print_cms ''info'' ''[+] CVE list'' [] 1
                          in if length vulns' > 0 then
                               (case core_vulns_loop w vulns' [] lg0 of
                                  (vulns_details, lg) \<Rightarrow> (lg, Inr (PyList vulns_details, None)))
                             else
                               (lg0 @ print_cms ''good'' ''No CVE were found'' [] 1,
                                Inr (PyList [], None))))
                  else ([], Inr (PyList [], None))))"

subsection \<open>check_vulns_addon\<close>

text \<open>
  What both branches of the loop body of \<^verbatim>\<open>check_vulns_addon\<close> store for an entry;
  \<open>prefix\<close> is empty in the \<^verbatim>\<open>try\<close> branch and \<^verbatim>\<open>" To check : "\<close> in the handler of
  \<^verbatim>\<open>(TypeError, AttributeError)\<close>.
\<close>

definition addon_vuln_details :: "world \<Rightarrow> string \<Rightarrow> vuln \<Rightarrow> vuln_details" where
  "addon_vuln_details w prefix vuln =
     (let vuln_url = url_details @ str_nat (vuln_id vuln)
      in \<lparr>vd_name = prefix @ title vuln, vd_link = vuln_url, vd_type = vuln_type vuln,
          vd_poc = (if get_poc w vuln_url then ''YES'' else ''CHECK''),
          vd_fixed_in = fixed_in vuln\<rparr>)"

text \<open>
  \<^verbatim>\<open>for vuln in vulns\<close> of \<^verbatim>\<open>check_vulns_addon\<close>. An exception of the comparison other
  than \<^verbatim>\<open>TypeError\<close> and \<^verbatim>\<open>AttributeError\<close> would leave the loop and meet the outer
  handler of \<^verbatim>\<open>HTTPError\<close>.
\<close>

fun addon_vulns_loop ::
  "world \<Rightarrow> vuln list \<Rightarrow> addon \<Rightarrow> log_entry list \<Rightarrow> addon \<times> log_entry list \<times> py_exn option" where
  "addon_vulns_loop w [] addon lg = (addon, lg, None)"
| "addon_vulns_loop w (vuln # rest) addon lg =
     (case LooseVersion_lt (LooseVersion (Some (version addon))) (LooseVersion (fixed_in vuln)) of
        Inr True \<Rightarrow>
          addon_vulns_loop w rest
            (addon\<lparr>vulns := vulns addon @ [addon_vuln_details w [] vuln]\<rparr>)
            (lg @ print_cms ''alert'' (title vuln) [] 1)
      | Inr False \<Rightarrow> addon_vulns_loop w rest addon lg
      | Inl e \<Rightarrow>
          if e = TypeError \<or> e = AttributeError then
            addon_vulns_loop w rest
              (addon\<lparr>vulns := vulns addon @ [addon_vuln_details w '' To check : '' vuln]\<rparr>)
              (lg @ print_cms ''alert''
                      (''Unable to compare version. Please check this '' @
                       ''vulnerability :'' @ title vuln) [] 1)
          else (addon, lg, Some e))"

text \<open>The request of \<^verbatim>\<open>check_vulns_addon\<close>, always below \<^verbatim>\<open>plugins/\<close>.\<close>

definition addon_vulns_request :: "WP \<Rightarrow> addon \<Rightarrow> request" where
  "addon_vulns_request self addon =
     (let token_header = ''Token token='' @ self_wpvulndb_token self
      in \<lparr>url = cve_ref_url @ ''plugins/'' @ name addon,
          headers = [(''Authorization'', token_header)], allow_redirects = True\<rparr>)"

definition check_vulns_addon ::
  "world \<Rightarrow> WP \<Rightarrow> addon \<Rightarrow>
     addon \<times> log_entry list \<times> (py_exn + vuln str_or_list \<times> py_exn option)" where
  "check_vulns_addon w self addon =
     (case requests_get w (addon_vulns_request self addon) of
           NoResponse \<Rightarrow> (addon, [], Inl ConnectionError)
         | Response response \<Rightarrow>
             (case raise_for_status response of
                Some e \<Rightarrow>
                  (let msg = ''No entry on wpvulndb.''
                   in (addon\<lparr>cve := ''NO''\<rparr>,
                       print_cms ''info'' (''[+] '' @ msg) [] 1,
                       Inr (PyStr [], Some e)))
              | None \<Rightarrow>
                  if status_code response = 200 then
                    (case json response (name addon) of
                       None \<Rightarrow> (addon, [], Inl KeyError)
                     | Some vulns' \<Rightarrow>
                         (case addon_vulns_loop w vulns' addon (print_cms ''info'' ''[+] CVE list'' [] 1) of
                            (addon', lg, Some e) \<Rightarrow>
                              (case e of
                                 HTTPError _ \<Rightarrow>
                                   (addon'\<lparr>cve := ''NO''\<rparr>,
                                    lg @ print_cms ''info'' (''[+] '' @ ''No entry on wpvulndb.'') [] 1,
                                    Inr (PyStr [], Some e))
                               | _ \<Rightarrow> (addon', lg, Inl e))
                          | (addon', lg, None) \<Rightarrow>
                              (addon'\<lparr>cve := (if vulns addon' \<noteq> [] then ''YES'' else ''NO'')\<rparr>,
                               lg, Inr (PyList vulns', None))))
                  else (addon, [], Inr (PyList [], None))))"

subsection \<open>addon_analysis\<close>

text \<open>The dictionary with which \<^verbatim>\<open>addon_analysis\<close> starts every addon.\<close>

definition new_addon :: "string \<Rightarrow> string \<Rightarrow> addon" where
  "new_addon addon_type addon_name =
     \<lparr>type' = addon_type, status = ''todo'', name = addon_name, version = [],
      last_version = ''Not found'', last_release_date = [], link = [], altered = [],
      cve = [], vulns = [], addon_notes = [], alterations = [], filename = [], path = [],
      mu = None\<rparr>"








section \<open>Notions used to state the properties\<close>

text \<open>The mapping from relative path to file bytes of a tree.\<close>

definition tree_contents :: "file_entry list \<Rightarrow> (string \<rightharpoonup> string)" where
  "tree_contents files = map_of (map (\<lambda>f. (relpath f, data f)) files)"

text \<open>
  A directory that can be listed, together with each of its sub-directories; and its
  sub-directories that hold both \<^verbatim>\<open>plugins\<close> and \<^verbatim>\<open>themes\<close>.
\<close>

definition listable :: "world \<Rightarrow> string \<Rightarrow> bool" where
  "listable w dir_path =
     (case listdirs w dir_path of
        None \<Rightarrow> False
      | Some dirs \<Rightarrow> list_all (\<lambda>dirname. listdirs w (os_path_join dir_path [dirname]) \<noteq> None) dirs)"

definition holds_plugins_and_themes :: "world \<Rightarrow> string \<Rightarrow> string \<Rightarrow> bool" where
  "holds_plugins_and_themes w dir_path dirname =
     (case listdirs w (os_path_join dir_path [dirname]) of
        None \<Rightarrow> False
      | Some sub \<Rightarrow> ''plugins'' \<in> set sub \<and> ''themes'' \<in> set sub)"

text \<open>
  A world in which nothing answers and nothing exists (the digest of some bytes is taken
  to be the bytes themselves), a response that has only a status, and an installation;
  the examples below change them where they need to.
\<close>

definition offline_world :: world where
  "offline_world =
     \<lparr>requests_get = (\<lambda>req. NoResponse),
      re_search = (\<lambda>re s. None),
      isfile = (\<lambda>p. False),
      listdirs = (\<lambda>p. None),
      walk = (\<lambda>p. None),
      sha1 = (\<lambda>bytes. bytes),
      get_poc = (\<lambda>u. False),
      diff_files = (\<lambda>a b ign target. []),
      fetch_addons = (\<lambda>p key. []),
      marker_version = (\<lambda>p re strip. None),
      TempDir_create = ''/tmp/comission''\<rparr>"

definition reply :: "nat \<Rightarrow> response" where
  "reply code = \<lparr>status_code = code, body_text = [], json = Map.empty, content = Map.empty\<rparr>"

definition example_wp :: WP where
  "example_wp =
     \<lparr>self_dir_path = ''/srv/www'', self_wp_content = ''wp-content'',
      self_plugins_dir = ''/srv/www/wp-content/plugins'',
      self_themes_dir = ''/srv/www/wp-content/themes'',
      self_wpvulndb_token = ''token'', self_plugins = [], self_themes = []\<rparr>"

text \<open>
  A world in which every request is answered with the same bare status, an addon as
  \<^verbatim>\<open>addon_analysis\<close> holds it once its version is known, and entries of the vulnerability
  database.
\<close>

definition answering :: "nat \<Rightarrow> world" where
  "answering code = offline_world\<lparr>requests_get := (\<lambda>req. Response (reply code))\<rparr>"

definition example_addon :: addon where
  "example_addon = (new_addon ''plugins'' ''foo'')\<lparr>version := ''1.0''\<rparr>"

definition example_vulns :: "vuln list" where
  "example_vulns =
     [\<lparr>vuln_id = 9171, title = ''Stored XSS'', vuln_type = ''XSS'', fixed_in = Some ''1.5''\<rparr>,
      \<lparr>vuln_id = 9172, title = ''SQL injection'', vuln_type = ''SQLI'', fixed_in = Some ''0.9''\<rparr>,
      \<lparr>vuln_id = 9173, title = ''Object injection'', vuln_type = ''RCE'', fixed_in = None\<rparr>,
      \<lparr>vuln_id = 9174, title = ''CSRF'', vuln_type = ''CSRF'', fixed_in = Some ''1.x''\<rparr>]"

text \<open>
  The vulnerability database answering 200 with \<open>example_vulns\<close> for the addon \<^verbatim>\<open>foo\<close>
  and for the core version 4.9.8.
\<close>

definition vulndb_world :: world where
  "vulndb_world =
     offline_world\<lparr>requests_get :=
       (\<lambda>req. Response ((reply 200)
          \<lparr>json := [''foo'' \<mapsto> example_vulns, ''4.9.8'' \<mapsto> example_vulns]\<rparr>))\<rparr>"

text \<open>
  The listing page of the addon reporting version 0.9, for an installed version 1.0.
\<close>

definition listing_world :: world where
  "listing_world =
     offline_world
       \<lparr>requests_get := (\<lambda>req. Response ((reply 200)\<lparr>body_text := ''<html>''\<rparr>)),
        re_search := (\<lambda>re page.
          if re = regex_version_addon_web_plugin then Some ''0.9''
          else if re = regex_date_last_release_plugin then Some ''2019-03-01T10:00:00''
          else None)\<rparr>"

text \<open>
  An installed addon and its reference archive that differ in one file below \<^verbatim>\<open>js\<close>, an
  ignored directory, so that the comparison reports no path.
\<close>

definition assets_world :: world where
  "assets_world =
     offline_world
       \<lparr>requests_get := (\<lambda>req. Response ((reply 200)
          \<lparr>content := [''foo'' \<mapsto> [\<lparr>relpath = ''js/app.js'', data = ''min'', mtime = 0, mode = 420\<rparr>]]\<rparr>)),
        walk := [''/srv/www/wp-content/plugins/foo'' \<mapsto>
                   [\<lparr>relpath = ''js/app.js'', data = ''full'', mtime = 5, mode = 420\<rparr>]]\<rparr>"

text \<open>
  What one iteration of the loop of \<^verbatim>\<open>check_vulns_addon\<close> appends to \<^verbatim>\<open>addon["vulns"]\<close>
  for an installed version.
\<close>

definition stored_for :: "world \<Rightarrow> string \<Rightarrow> vuln \<Rightarrow> vuln_details list" where
  "stored_for w installed vuln =
     (case LooseVersion_lt (LooseVersion (Some installed)) (LooseVersion (fixed_in vuln)) of
        Inr True \<Rightarrow> [addon_vuln_details w [] vuln]
      | Inr False \<Rightarrow> []
      | Inl e \<Rightarrow> [addon_vuln_details w '' To check : '' vuln])"





section \<open>Version comparison\<close>

lemma split_dot: "component_re_split [] (CHR ''.'' # s) = [] # ''.'' # component_re_split [] s"
  by (simp add: is_digit_def is_lower_def)

lemma not_digit_dot: "\<not> is_digit CHR ''.''"
  by (simp add: is_digit_def)

lemma split_run:
  assumes "d \<noteq> []" "list_all is_digit d" "rest = [] \<or> \<not> is_digit (hd rest)"
  shows "component_re_split [] (d @ rest) = [] # d # component_re_split [] rest"
proof -
  obtain c cs where d: "d = c # cs" using assms(1) by (cases d) auto
  have c: "is_digit c" and cs: "list_all is_digit cs" using assms(2) d by auto
  have tw: "takeWhile is_digit (cs @ rest) = cs"
    using cs assms(3) by (cases rest) (auto simp: list_all_iff)
  have dw: "dropWhile is_digit (cs @ rest) = rest"
    using cs assms(3) by (cases rest) (auto simp: list_all_iff)
  show ?thesis using c tw dw by (simp add: d)
qed

lemma parse_Nil: "LooseVersion_parse [] = []"
  by (simp add: LooseVersion_parse_def)

lemma parse_dot: "LooseVersion_parse (CHR ''.'' # s) = LooseVersion_parse s"
  by (simp only: LooseVersion_parse_def split_dot) simp

lemma parse_run:
  assumes "d \<noteq> []" "list_all is_digit d" "length d \<le> max_str_digits"
    and "rest = [] \<or> \<not> is_digit (hd rest)"
  shows "LooseVersion_parse (d @ rest) = Num (int_of d) # LooseVersion_parse rest"
  using assms by (auto simp add: LooseVersion_parse_def split_run to_component_def not_digit_dot)

lemma parse_dotted:
  "list_all (\<lambda>d. d \<noteq> [] \<and> list_all is_digit d \<and> length d \<le> max_str_digits) ds \<Longrightarrow>
   LooseVersion_parse (dotted ds) = map (\<lambda>d. Num (int_of d)) ds"
proof (induction ds rule: dotted.induct)
  case 1
  then show ?case by (simp add: parse_Nil)
next
  case (2 d)
  then show ?case using parse_run [of d "[]"] by (simp add: parse_Nil)
next
  case (3 d e ds)
  have "LooseVersion_parse (d @ (CHR ''.'' # dotted (e # ds))) =
        Num (int_of d) # LooseVersion_parse (CHR ''.'' # dotted (e # ds))"
    using 3(2) by (intro parse_run) (auto simp: not_digit_dot)
  then show ?case using 3 by (simp add: parse_dot)
qed

lemma list_lt_Num: "list_lt (map Num xs) (map Num ys) = Inr (xs < ys)"
  by (induction xs ys rule: list_induct2') auto

lemma dotted_nonempty: "digit_runs ds \<Longrightarrow> dotted ds \<noteq> []"
  by (induction ds rule: dotted.induct) (auto simp: digit_runs_def)

lemma map_Num_eq: "map Num xs = map Num ys \<longleftrightarrow> xs = ys"
  by (simp add: inj_map_eq_map inj_on_def)

lemma cmp_Num:
  "LooseVersion_cmp (Some (map Num xs)) (Some (map Num ys)) =
     Inr (if xs = ys then 0 else if xs < ys then - 1 else 1)"
proof -
  have "xs \<noteq> ys \<Longrightarrow> \<not> xs < ys \<Longrightarrow> ys < xs" by auto
  then show ?thesis
    by (auto simp: LooseVersion_cmp_def list_lt_Num map_Num_eq)
qed

lemma LooseVersion_dotted:
  assumes "digit_runs ds"
  shows "LooseVersion (Some (dotted ds)) = Some (map Num (map int_of ds))"
  using assms dotted_nonempty [OF assms]
  by (simp add: LooseVersion_def parse_dotted digit_runs_def)

lemma lt_Num:
  "LooseVersion_lt (Some (map Num xs)) (Some (map Num ys)) = Inr (xs < ys)"
  by (simp add: LooseVersion_lt_def cmp_Num)

lemma prefix_less: "ys \<noteq> [] \<Longrightarrow> (xs :: nat list) < xs @ ys"
  by (induction xs) (auto simp: neq_Nil_conv)

lemma digit_runs_append: "digit_runs ds \<Longrightarrow> digit_runs es \<Longrightarrow> digit_runs (ds @ es)"
  by (simp add: digit_runs_def)

text \<open>
  C1, as the code has it. For two well-formed dotted-numeric version strings (digit runs
  of at most 4300 digits each, joined by dots) the comparison never raises; each string is
  read as the list of the numbers of its runs, and \<^verbatim>\<open>LooseVersion(a) < LooseVersion(b)\<close>
  is the lexicographic order of the two lists of numbers, compared left to right. The two
  versions compare equal exactly when the lists of numbers are the same. Nothing is padded
  with zeros: a version is strictly smaller than each of its extensions by further runs,
  whatever their values.
\<close>

theorem LooseVersion_dotted_numeric:
  assumes "digit_runs ds" and "digit_runs es"
  shows "LooseVersion (Some (dotted ds)) = Some (map Num (map int_of ds)) \<and>
         LooseVersion_lt (LooseVersion (Some (dotted ds))) (LooseVersion (Some (dotted es))) =
           Inr (map int_of ds < map int_of es) \<and>
         (LooseVersion_cmp (LooseVersion (Some (dotted ds))) (LooseVersion (Some (dotted es))) = Inr 0
            \<longleftrightarrow> map int_of ds = map int_of es) \<and>
         LooseVersion_lt (LooseVersion (Some (dotted ds))) (LooseVersion (Some (dotted (ds @ es)))) =
           Inr True"
proof (intro conjI)
  note pd = LooseVersion_dotted [OF assms(1)]
  note pe = LooseVersion_dotted [OF assms(2)]
  note pde = LooseVersion_dotted [OF digit_runs_append [OF assms]]
  show "LooseVersion (Some (dotted ds)) = Some (map Num (map int_of ds))"
    by (rule pd)
  show "LooseVersion_lt (LooseVersion (Some (dotted ds))) (LooseVersion (Some (dotted es))) =
          Inr (map int_of ds < map int_of es)"
    unfolding pd pe by (rule lt_Num)
  show "LooseVersion_cmp (LooseVersion (Some (dotted ds))) (LooseVersion (Some (dotted es))) = Inr 0
          \<longleftrightarrow> map int_of ds = map int_of es"
    unfolding pd pe by (simp only: cmp_Num) simp
  have "es \<noteq> []" using assms(2) by (simp add: digit_runs_def)
  then have "map int_of ds < map int_of (ds @ es)"
    using prefix_less [of "map int_of es" "map int_of ds"] by simp
  then show "LooseVersion_lt (LooseVersion (Some (dotted ds)))
               (LooseVersion (Some (dotted (ds @ es)))) = Inr True"
    unfolding pd pde by (simp only: lt_Num)
qed

text \<open>The theorem at \<^verbatim>\<open>"1.2"\<close> and \<^verbatim>\<open>"1.10"\<close>: the first is the smaller version.\<close>

theorem LooseVersion_dotted_numeric_witness:
  "digit_runs [''1'', ''2''] \<and> digit_runs [''1'', ''10''] \<and>
   LooseVersion_lt (LooseVersion (Some ''1.2'')) (LooseVersion (Some ''1.10'')) = Inr True"
proof -
  have a: "digit_runs [''1'', ''2'']" and b: "digit_runs [''1'', ''10'']"
    by (simp_all add: digit_runs_def is_digit_def max_str_digits_def)
  have c: "map int_of [''1'', ''2''] < map int_of [''1'', ''10'']"
    by (simp add: int_of_def)
  have "LooseVersion_lt (LooseVersion (Some (dotted [''1'', ''2''])))
          (LooseVersion (Some (dotted [''1'', ''10'']))) =
        Inr (map int_of [''1'', ''2''] < map int_of [''1'', ''10''])"
    using LooseVersion_dotted_numeric [OF a b] by (rule conjunct1 [OF conjunct2])
  with a b c show ?thesis by simp
qed

text \<open>
  C1 as stated fails: \<^verbatim>\<open>"1.2.0"\<close> does not compare equal to \<^verbatim>\<open>"1.2"\<close>. The comparison
  gives 1, and \<^verbatim>\<open>LooseVersion("1.2") < LooseVersion("1.2.0")\<close> is true.
\<close>

theorem LooseVersion_zero_padding_counterexample:
  "LooseVersion_cmp (LooseVersion (Some ''1.2.0'')) (LooseVersion (Some ''1.2'')) = Inr 1 \<and>
   LooseVersion_lt (LooseVersion (Some ''1.2'')) (LooseVersion (Some ''1.2.0'')) = Inr True"
  by code_simp

section \<open>The content hash of a directory\<close>

lemma sort_cong_mset: "mset xs = mset ys \<Longrightarrow> sort xs = sort (ys :: 'a :: linorder list)"
  by (rule properties_for_sort) simp_all

lemma mset_of_contents:
  assumes "distinct (map relpath fs1)" "distinct (map relpath fs2)"
    and "tree_contents fs1 = tree_contents fs2"
  shows "mset (map data fs1) = mset (map data fs2)"
proof -
  let ?p = "\<lambda>f. (relpath f, data f)"
  have f1: "map fst (map ?p fs1) = map relpath fs1" and f2: "map fst (map ?p fs2) = map relpath fs2"
    by simp_all
  have d1: "distinct (map fst (map ?p fs1))" and d2: "distinct (map fst (map ?p fs2))"
    using assms(1,2) unfolding f1 f2 by simp_all
  have "set (map ?p fs1) = set (map ?p fs2)"
    using map_of_inject_set [OF d1 d2] assms(3) unfolding tree_contents_def by simp
  moreover have "distinct (map ?p fs1)" "distinct (map ?p fs2)"
    using d1 d2 distinct_map by blast+
  ultimately have "mset (map ?p fs1) = mset (map ?p fs2)"
    using set_eq_iff_mset_eq_distinct by blast
  then have "image_mset snd (mset (map ?p fs1)) = image_mset snd (mset (map ?p fs2))"
    by (rule arg_cong)
  then show ?thesis by (simp add: multiset.map_comp comp_def)
qed

lemma filehash_comp: "filehash hashfunc = hashfunc \<circ> data"
  by (simp add: fun_eq_iff filehash_def)

text \<open>
  C9. Two directory trees, each given by the files that the walk meets (in any order, with
  any modification times and permission bits), whose mappings from relative path to file
  bytes are the same, have the same \<^verbatim>\<open>dirhash\<close>: the digest is computed from the sorted
  digests of the file contents alone.
\<close>

theorem dirhash_content_pure:
  assumes "distinct (map relpath fs1)" and "distinct (map relpath fs2)"
    and "tree_contents fs1 = tree_contents fs2"
  shows "dirhash hashfunc (Some fs1) = dirhash hashfunc (Some fs2)"
proof -
  have "image_mset hashfunc (mset (map data fs1)) = image_mset hashfunc (mset (map data fs2))"
    using mset_of_contents [OF assms] by simp
  then have "mset (map (filehash hashfunc) fs1) = mset (map (filehash hashfunc) fs2)"
    by (simp add: filehash_comp multiset.map_comp)
  then have "sort (map (filehash hashfunc) fs1) = sort (map (filehash hashfunc) fs2)"
    by (rule sort_cong_mset)
  then show ?thesis by (simp add: dirhash_def reduce_hash_def)
qed

text \<open>
  Two listings of the same two files, in a different order and with different times and
  modes.
\<close>

theorem dirhash_content_pure_witness:
  "distinct (map relpath [\<lparr>relpath = ''a.php'', data = ''A'', mtime = 1, mode = 420\<rparr>,
                          \<lparr>relpath = ''b.php'', data = ''B'', mtime = 2, mode = 420\<rparr>]) \<and>
   distinct (map relpath [\<lparr>relpath = ''b.php'', data = ''B'', mtime = 7, mode = 384\<rparr>,
                          \<lparr>relpath = ''a.php'', data = ''A'', mtime = 9, mode = 493\<rparr>]) \<and>
   tree_contents [\<lparr>relpath = ''a.php'', data = ''A'', mtime = 1, mode = 420\<rparr>,
                  \<lparr>relpath = ''b.php'', data = ''B'', mtime = 2, mode = 420\<rparr>] =
   tree_contents [\<lparr>relpath = ''b.php'', data = ''B'', mtime = 7, mode = 384\<rparr>,
                  \<lparr>relpath = ''a.php'', data = ''A'', mtime = 9, mode = 493\<rparr>] \<and>
   dirhash (sha1 offline_world)
     (Some [\<lparr>relpath = ''a.php'', data = ''A'', mtime = 1, mode = 420\<rparr>,
            \<lparr>relpath = ''b.php'', data = ''B'', mtime = 2, mode = 420\<rparr>]) =
   dirhash (sha1 offline_world)
     (Some [\<lparr>relpath = ''b.php'', data = ''B'', mtime = 7, mode = 384\<rparr>,
            \<lparr>relpath = ''a.php'', data = ''A'', mtime = 9, mode = 493\<rparr>])"
proof -
  let ?t1 = "[\<lparr>relpath = ''a.php'', data = ''A'', mtime = 1, mode = 420\<rparr>,
              \<lparr>relpath = ''b.php'', data = ''B'', mtime = 2, mode = 420\<rparr>]"
  let ?t2 = "[\<lparr>relpath = ''b.php'', data = ''B'', mtime = 7, mode = 384\<rparr>,
              \<lparr>relpath = ''a.php'', data = ''A'', mtime = 9, mode = 493\<rparr>]"
  have d1: "distinct (map relpath ?t1)" and d2: "distinct (map relpath ?t2)" by simp_all
  have c: "tree_contents ?t1 = tree_contents ?t2"
    by (auto simp: tree_contents_def fun_eq_iff)
  have h: "dirhash (sha1 offline_world) (Some ?t1) = dirhash (sha1 offline_world) (Some ?t2)"
    using dirhash_content_pure [OF d1 d2 c] .
  show ?thesis by (intro conjI d1 d2 c h)
qed

section \<open>The wp-content directory\<close>

lemma suspects_listable:
  "list_all (\<lambda>dirname. listdirs w (os_path_join dir_path [dirname]) \<noteq> None) dirs \<Longrightarrow>
   wp_content_suspects w dir_path dirs acc =
     Inr (acc @ filter (holds_plugins_and_themes w dir_path) dirs)"
  by (induction dirs arbitrary: acc) (auto simp: holds_plugins_and_themes_def)

lemma suspects_raise:
  "wp_content_suspects w dir_path dirs acc = Inl e \<Longrightarrow> e = StopIteration"
  by (induction dirs arbitrary: acc) (auto split: option.splits)

lemma get_wp_content_raise: "get_wp_content w dir_path = (lg, Inl e) \<Longrightarrow> e = StopIteration"
  by (auto simp: get_wp_content_def split: option.splits sum.splits dest: suspects_raise)

lemma get_wp_content_not_empty: "snd (get_wp_content w dir_path) \<noteq> Inr []"
  by (auto simp: get_wp_content_def split: option.splits sum.splits)

lemma suspects_unlistable:
  "\<not> list_all (\<lambda>dirname. listdirs w (os_path_join dir_path [dirname]) \<noteq> None) dirs \<Longrightarrow>
   wp_content_suspects w dir_path dirs acc = Inl StopIteration"
proof (induction dirs arbitrary: acc)
  case Nil
  then show ?case by simp
next
  case (Cons d dirs)
  show ?case
  proof (cases "listdirs w (os_path_join dir_path [d])")
    case None
    then show ?thesis by simp
  next
    case (Some sub)
    then have "\<not> list_all (\<lambda>dirname. listdirs w (os_path_join dir_path [dirname]) \<noteq> None) dirs"
      using Cons.prems by simp
    then show ?thesis using Some Cons.IH by simp
  qed
qed

text \<open>
  C10, as the code has it. \<^verbatim>\<open>get_wp_content\<close> never returns the empty list, so the
  constructor's \<^verbatim>\<open>get_wp_content(dir_path)[0]\<close> never raises \<^verbatim>\<open>IndexError\<close>. When the
  directory and each of its sub-directories can be listed the function returns: the
  sub-directories that hold both \<^verbatim>\<open>plugins\<close> and \<^verbatim>\<open>themes\<close>, in order, or the single
  element \<^verbatim>\<open>"wp-content"\<close> when there is none. Otherwise it does not return: it raises
  \<^verbatim>\<open>StopIteration\<close>.
\<close>

theorem get_wp_content_nonempty:
  "snd (get_wp_content w dir_path) \<noteq> Inr [] \<and>
   snd (WP_init w dir_path wp_content plugins_dir themes_dir wpvulndb_token) \<noteq> Inl IndexError \<and>
   (listable w dir_path \<longrightarrow>
      (\<exists>dirs. listdirs w dir_path = Some dirs \<and>
         snd (get_wp_content w dir_path) =
           Inr (if filter (holds_plugins_and_themes w dir_path) dirs = [] then [''wp-content'']
                else filter (holds_plugins_and_themes w dir_path) dirs))) \<and>
   (\<not> listable w dir_path \<longrightarrow> get_wp_content w dir_path = ([], Inl StopIteration))"
proof (intro conjI impI)
  show "snd (get_wp_content w dir_path) \<noteq> Inr []" by (rule get_wp_content_not_empty)
next
  show "snd (WP_init w dir_path wp_content plugins_dir themes_dir wpvulndb_token) \<noteq> Inl IndexError"
    using get_wp_content_not_empty [of w dir_path]
    by (auto simp: WP_init_def Let_def split: prod.splits sum.splits list.splits
             dest: get_wp_content_raise)
next
  assume "listable w dir_path"
  then obtain dirs where d: "listdirs w dir_path = Some dirs"
    and l: "list_all (\<lambda>dirname. listdirs w (os_path_join dir_path [dirname]) \<noteq> None) dirs"
    by (auto simp: listable_def split: option.splits)
  show "\<exists>dirs. listdirs w dir_path = Some dirs \<and>
         snd (get_wp_content w dir_path) =
           Inr (if filter (holds_plugins_and_themes w dir_path) dirs = [] then [''wp-content'']
                else filter (holds_plugins_and_themes w dir_path) dirs)"
    using d suspects_listable [OF l, of "[]"] by (simp add: get_wp_content_def)
next
  assume n: "\<not> listable w dir_path"
  show "get_wp_content w dir_path = ([], Inl StopIteration)"
  proof (cases "listdirs w dir_path")
    case None
    then show ?thesis by (simp add: get_wp_content_def)
  next
    case (Some dirs)
    then have "\<not> list_all (\<lambda>dirname. listdirs w (os_path_join dir_path [dirname]) \<noteq> None) dirs"
      using n by (simp add: listable_def)
    then show ?thesis using Some suspects_unlistable [of w dir_path dirs "[]"]
      by (simp add: get_wp_content_def)
  qed
qed

text \<open>
  A directory whose only sub-directory holds nothing: the fallback is returned. The same
  directory when its sub-directory cannot be listed: \<^verbatim>\<open>StopIteration\<close>.
\<close>

theorem get_wp_content_nonempty_witness:
  "listable (offline_world\<lparr>listdirs := [''/srv/www'' \<mapsto> [''logs'']]  (''/srv/www/logs'' \<mapsto> [])\<rparr>) ''/srv/www'' \<and>
   snd (get_wp_content (offline_world\<lparr>listdirs := [''/srv/www'' \<mapsto> [''logs'']]  (''/srv/www/logs'' \<mapsto> [])\<rparr>) ''/srv/www'') = Inr [''wp-content''] \<and>
   \<not> listable (offline_world\<lparr>listdirs := [''/srv/www'' \<mapsto> [''logs'']]\<rparr>) ''/srv/www'' \<and>
   get_wp_content (offline_world\<lparr>listdirs := [''/srv/www'' \<mapsto> [''logs'']]\<rparr>) ''/srv/www'' =
     ([], Inl StopIteration)"
proof -
  let ?w = "offline_world\<lparr>listdirs := [''/srv/www'' \<mapsto> [''logs'']]  (''/srv/www/logs'' \<mapsto> [])\<rparr>"
  let ?u = "offline_world\<lparr>listdirs := [''/srv/www'' \<mapsto> [''logs'']]\<rparr>"
  have l: "listable ?w ''/srv/www''"
    by (simp add: listable_def)
  have n: "\<not> listable ?u ''/srv/www''"
    by (simp add: listable_def)
  have f: "filter (holds_plugins_and_themes ?w ''/srv/www'') [''logs''] = []"
    by (simp add: holds_plugins_and_themes_def)
  note t = get_wp_content_nonempty [of ?w "''/srv/www''" "[]" "[]" "[]" "[]"]
  obtain dirs where d: "listdirs ?w ''/srv/www'' = Some dirs"
    and g: "snd (get_wp_content ?w ''/srv/www'') =
              Inr (if filter (holds_plugins_and_themes ?w ''/srv/www'') dirs = [] then [''wp-content'']
                   else filter (holds_plugins_and_themes ?w ''/srv/www'') dirs)"
    using t [THEN conjunct2, THEN conjunct2, THEN conjunct1, rule_format, OF l] by fast
  have "dirs = [''logs'']" using d by simp
  then have a: "snd (get_wp_content ?w ''/srv/www'') = Inr [''wp-content'']"
    using g f by simp
  have b: "get_wp_content ?u ''/srv/www'' = ([], Inl StopIteration)"
    using get_wp_content_nonempty [of ?u "''/srv/www''" "[]" "[]" "[]" "[]",
            THEN conjunct2, THEN conjunct2, THEN conjunct2, rule_format, OF n] .
  show ?thesis by (rule conjI [OF l conjI [OF a conjI [OF n b]]])
qed

text \<open>
  C10 as stated fails for a path that cannot be listed: \<^verbatim>\<open>get_wp_content\<close> returns no
  list, it raises \<^verbatim>\<open>StopIteration\<close>, and so does the constructor.
\<close>

theorem unlistable_directory_counterexample:
  "get_wp_content offline_world ''/nonexistent'' = ([], Inl StopIteration) \<and>
   snd (WP_init offline_world ''/nonexistent'' [] [] [] ''token'') = Inl StopIteration"
proof -
  have l: "listdirs offline_world ''/nonexistent'' = None"
    by (simp add: offline_world_def)
  have g: "get_wp_content offline_world ''/nonexistent'' = ([], Inl StopIteration)"
    by (simp add: get_wp_content_def l)
  have "snd (WP_init offline_world ''/nonexistent'' [] [] [] ''token'') = Inl StopIteration"
    by (simp add: WP_init_def g Let_def)
  with g show ?thesis by (rule conjI)
qed

section \<open>Vulnerabilities of the core\<close>

lemma core_vulns_loop_details:
  "fst (core_vulns_loop w vs acc lg) = acc @ map (core_vuln_details w) vs"
  by (induction vs arbitrary: acc lg) simp_all

text \<open>
  C7. When the vulnerability database answers 200 and its reply holds the entry of the
  installed core version, \<^verbatim>\<open>check_vulns_core\<close> returns one record for every entry of the
  reply, in order, whatever the entry's \<^verbatim>\<open>fixed_in\<close> is: no version is compared and no
  entry is left out.
\<close>

theorem check_vulns_core_includes_all:
  assumes "requests_get w (core_vulns_request self version_core) = Response r"
    and "status_code r = 200"
    and "json r version_core = Some vs"
  shows "(\<exists>lg. check_vulns_core w self version_core =
            (lg, Inr (PyList (map (core_vuln_details w) vs), None))) \<and>
         map vd_name (map (core_vuln_details w) vs) = map title vs \<and>
         map vd_fixed_in (map (core_vuln_details w) vs) = map fixed_in vs"
proof (intro conjI)
  have rs: "raise_for_status r = None"
    using assms(2) by (simp add: raise_for_status_def)
  show "\<exists>lg. check_vulns_core w self version_core =
           (lg, Inr (PyList (map (core_vuln_details w) vs), None))"
  proof (cases vs)
    case Nil
    then show ?thesis using assms rs by (simp add: check_vulns_core_def)
  next
    case (Cons v vs')
    obtain ds lg where l: "core_vulns_loop w vs [] (print_cms ''info'' ''[+] CVE list'' [] 1) = (ds, lg)"
      by (cases "core_vulns_loop w vs [] (print_cms ''info'' ''[+] CVE list'' [] 1)")
    have "ds = map (core_vuln_details w) vs"
      using core_vulns_loop_details [of w vs "[]" "print_cms ''info'' ''[+] CVE list'' [] 1"] l
      by simp
    then show ?thesis using assms rs l Cons by (simp add: check_vulns_core_def)
  qed
  show "map vd_name (map (core_vuln_details w) vs) = map title vs"
    by (simp add: core_vuln_details_def Let_def comp_def)
  show "map vd_fixed_in (map (core_vuln_details w) vs) = map fixed_in vs"
    by (simp add: core_vuln_details_def Let_def comp_def)
qed

text \<open>
  Four entries, one fixed in a later version, one in an earlier version, one not fixed,
  one with a version that cannot be compared: all four are returned.
\<close>

theorem check_vulns_core_includes_all_witness:
  "requests_get vulndb_world (core_vulns_request example_wp ''4.9.8'') =
     Response ((reply 200)\<lparr>json := [''foo'' \<mapsto> example_vulns, ''4.9.8'' \<mapsto> example_vulns]\<rparr>) \<and>
   status_code ((reply 200)\<lparr>json := [''foo'' \<mapsto> example_vulns, ''4.9.8'' \<mapsto> example_vulns]\<rparr>) = 200 \<and>
   json ((reply 200)\<lparr>json := [''foo'' \<mapsto> example_vulns, ''4.9.8'' \<mapsto> example_vulns]\<rparr>) ''4.9.8'' =
     Some example_vulns \<and>
   (\<exists>lg. check_vulns_core vulndb_world example_wp ''4.9.8'' =
           (lg, Inr (PyList (map (core_vuln_details vulndb_world) example_vulns), None))) \<and>
   map vd_name (map (core_vuln_details vulndb_world) example_vulns) =
     [''Stored XSS'', ''SQL injection'', ''Object injection'', ''CSRF'']"
proof -
  let ?r = "(reply 200)\<lparr>json := [''foo'' \<mapsto> example_vulns, ''4.9.8'' \<mapsto> example_vulns]\<rparr>"
  have a: "requests_get vulndb_world (core_vulns_request example_wp ''4.9.8'') = Response ?r"
    by (simp add: vulndb_world_def offline_world_def)
  have b: "status_code ?r = 200" by (simp add: reply_def)
  have c: "json ?r ''4.9.8'' = Some example_vulns" by simp
  have t: "map title example_vulns = [''Stored XSS'', ''SQL injection'', ''Object injection'', ''CSRF'']"
    by (simp add: example_vulns_def)
  show ?thesis
    using check_vulns_core_includes_all [OF a b c] a b c t by simp
qed

section \<open>The latest version of an addon\<close>

text \<open>
  C6. When the listing page is fetched and both patterns match, the latest version is
  recorded and the verdict is decided by equality of the two strings: equal strings log
  \<^verbatim>\<open>Up to date !\<close> and nothing else, and every other latest version logs the
  \<^verbatim>\<open>Outdated\<close> alert, whatever its order relative to the installed version.
\<close>
theorem up_to_date_by_string_equality:
  assumes "requests_get w \<lparr>url = releases_url addon, headers = [], allow_redirects = False\<rparr> = Response r"
    and "status_code r = 200"
    and "web_regexps addon = Some (version_web_regexp, date_last_release_regexp)"
    and "re_search w version_web_regexp (body_text r) = Some v"
    and "re_search w date_last_release_regexp (body_text r) = Some d"
  shows "get_addon_last_version w addon =
           (addon\<lparr>last_version := v, last_release_date := takeWhile (\<lambda>c. c \<noteq> CHR ''T'') d,
                   link := releases_url addon\<rparr>,
            (if v = version addon then [(''good'', ''Up to date !'', [], 1)]
             else [(''alert'', ''Outdated, last version: '',
                    v @ '' ( '' @ takeWhile (\<lambda>c. c \<noteq> CHR ''T'') d @ '' )'' @
                    [CHR 0x0A, CHR 0x09] @ ''Check : '' @ releases_url addon, 1)]),
            Inr (v, None))"
proof -
  have rs: "raise_for_status r = None"
    using assms(2) by (simp add: raise_for_status_def)
  show ?thesis
    using assms rs by (simp add: get_addon_last_version_def Let_def print_cms_def)
qed

text \<open>Installed 1.0, listed 0.9: the alert is raised although 0.9 is the smaller version.\<close>
theorem up_to_date_by_string_equality_witness:
  "requests_get listing_world \<lparr>url = releases_url example_addon, headers = [], allow_redirects = False\<rparr> =
     Response ((reply 200)\<lparr>body_text := ''<html>''\<rparr>) \<and>
   status_code ((reply 200)\<lparr>body_text := ''<html>''\<rparr>) = 200 \<and>
   web_regexps example_addon = Some (regex_version_addon_web_plugin, regex_date_last_release_plugin) \<and>
   re_search listing_world regex_version_addon_web_plugin (body_text ((reply 200)\<lparr>body_text := ''<html>''\<rparr>)) =
     Some ''0.9'' \<and>
   re_search listing_world regex_date_last_release_plugin (body_text ((reply 200)\<lparr>body_text := ''<html>''\<rparr>)) =
     Some ''2019-03-01T10:00:00'' \<and>
   version example_addon = ''1.0'' \<and>
   fst (snd (get_addon_last_version listing_world example_addon)) =
     [(''alert'', ''Outdated, last version: '',
       ''0.9 ( 2019-03-01 )'' @ [CHR 0x0A, CHR 0x09] @ ''Check : https://wordpress.org/plugins/foo/'', 1)]"
proof -
  let ?r = "(reply 200)\<lparr>body_text := ''<html>''\<rparr>"
  have a: "requests_get listing_world \<lparr>url = releases_url example_addon, headers = [], allow_redirects = False\<rparr> =
     Response ?r"
    by (simp add: listing_world_def offline_world_def)
  have b: "status_code ?r = 200" by (simp add: reply_def)
  have c: "web_regexps example_addon = Some (regex_version_addon_web_plugin, regex_date_last_release_plugin)"
    by (simp add: web_regexps_def example_addon_def new_addon_def)
  have d: "re_search listing_world regex_version_addon_web_plugin (body_text ?r) = Some ''0.9''"
    by (simp add: listing_world_def offline_world_def)
  have e: "re_search listing_world regex_date_last_release_plugin (body_text ?r) = Some ''2019-03-01T10:00:00''"
    by (simp add: listing_world_def offline_world_def)
  have v: "version example_addon = ''1.0''"
    by (simp add: example_addon_def)
  have u: "releases_url example_addon = ''https://wordpress.org/plugins/foo/''"
    by (simp add: releases_url_def example_addon_def new_addon_def site_url_def)
  show ?thesis
    using up_to_date_by_string_equality [OF a b c d e] a b c d e v u by simp
qed

section \<open>The integrity check\<close>

text \<open>
  C3. When the archive is fetched and both trees are read, a match of the two content
  hashes sets \<^verbatim>\<open>altered\<close> to \<^verbatim>\<open>NO\<close> and writes nothing else; a mismatch sets it to
  \<^verbatim>\<open>YES\<close> and appends what the comparison outside the ignored directories reports,
  which may be nothing, so that \<^verbatim>\<open>altered\<close> is \<^verbatim>\<open>YES\<close> with an empty list of alterations.
\<close>
theorem altered_follows_hash:
  assumes "requests_get w \<lparr>url = addon_url addon, headers = [], allow_redirects = True\<rparr> = Response r"
    and "status_code r = 200"
    and "walk w addon_path = Some installed"
    and "content r (name addon) = Some reference"
  shows "\<exists>lg. check_addon_alteration w addon addon_path temp_directory =
           (if dirhash (sha1 w) (Some installed) = dirhash (sha1 w) (Some reference)
            then (addon\<lparr>altered := ''NO''\<rparr>, lg, Inr (''NO'', None))
            else (addon\<lparr>alterations :=
                           alterations addon @ diff_files w installed reference ignored addon_path,
                         altered := ''YES''\<rparr>, lg, Inr (''YES'', None)))"
proof -
  have rs: "raise_for_status r = None"
    using assms(2) by (simp add: raise_for_status_def)
  show ?thesis
    using assms rs by (simp add: check_addon_alteration_def Let_def dirhash_def)
qed

text \<open>
  The installed tree and the archive differ only in a file below \<^verbatim>\<open>js\<close>: \<^verbatim>\<open>altered\<close> is
  \<^verbatim>\<open>YES\<close> and the list of alterations is empty.
\<close>
theorem altered_follows_hash_witness:
  "requests_get assets_world \<lparr>url = addon_url example_addon, headers = [], allow_redirects = True\<rparr> =
     Response ((reply 200)
       \<lparr>content := [''foo'' \<mapsto> [\<lparr>relpath = ''js/app.js'', data = ''min'', mtime = 0, mode = 420\<rparr>]]\<rparr>) \<and>
   walk assets_world ''/srv/www/wp-content/plugins/foo'' =
     Some [\<lparr>relpath = ''js/app.js'', data = ''full'', mtime = 5, mode = 420\<rparr>] \<and>
   altered (fst (check_addon_alteration assets_world example_addon
                   ''/srv/www/wp-content/plugins/foo'' ''/tmp/comission'')) = ''YES'' \<and>
   alterations (fst (check_addon_alteration assets_world example_addon
                       ''/srv/www/wp-content/plugins/foo'' ''/tmp/comission'')) = []"
proof -
  let ?ref = "[\<lparr>relpath = ''js/app.js'', data = ''min'', mtime = 0, mode = 420\<rparr>]"
  let ?inst = "[\<lparr>relpath = ''js/app.js'', data = ''full'', mtime = 5, mode = 420\<rparr>]"
  let ?r = "(reply 200)\<lparr>content := [''foo'' \<mapsto> ?ref]\<rparr>"
  have a: "requests_get assets_world \<lparr>url = addon_url example_addon, headers = [], allow_redirects = True\<rparr> =
     Response ?r"
    by (simp add: assets_world_def offline_world_def)
  have b: "status_code ?r = 200" by (simp add: reply_def)
  have c: "walk assets_world ''/srv/www/wp-content/plugins/foo'' = Some ?inst"
    by (simp add: assets_world_def offline_world_def)
  have d: "content ?r (name example_addon) = Some ?ref"
    by (simp add: example_addon_def new_addon_def)
  have h: "dirhash (sha1 assets_world) (Some ?inst) \<noteq> dirhash (sha1 assets_world) (Some ?ref)"
    by (simp add: dirhash_def reduce_hash_def filehash_def assets_world_def offline_world_def)
  have f: "diff_files assets_world ?inst ?ref ignored ''/srv/www/wp-content/plugins/foo'' = []"
    by (simp add: assets_world_def offline_world_def)
  have g: "alterations example_addon = []"
    by (simp add: example_addon_def new_addon_def)
  obtain lg where "check_addon_alteration assets_world example_addon
                   ''/srv/www/wp-content/plugins/foo'' ''/tmp/comission'' =
     (example_addon\<lparr>alterations := alterations example_addon @
         diff_files assets_world ?inst ?ref ignored ''/srv/www/wp-content/plugins/foo'',
        altered := ''YES''\<rparr>, lg, Inr (''YES'', None))"
    using altered_follows_hash [OF a b c d, of "''/tmp/comission''"] h by auto
  then show ?thesis using a c f g by simp
qed

section \<open>Vulnerabilities of an addon\<close>

lemma component_lt_raises: "component_lt x y = Inl e \<Longrightarrow> e = TypeError"
  by (cases x; cases y) auto

lemma list_lt_raises: "list_lt xs ys = Inl e \<Longrightarrow> e = TypeError"
  by (induction xs ys rule: list_lt.induct) (auto split: if_splits dest: component_lt_raises)

lemma LooseVersion_lt_raises:
  "LooseVersion_lt a b = Inl e \<Longrightarrow> e = TypeError \<or> e = AttributeError"
  by (auto simp: LooseVersion_lt_def LooseVersion_cmp_def
           split: option.splits sum.splits if_splits bool.splits dest: list_lt_raises)

lemma addon_vulns_loop_eq:
  "fst (addon_vulns_loop w vs addon lg) =
     addon\<lparr>vulns := vulns addon @ concat (map (stored_for w (version addon)) vs)\<rparr> \<and>
   snd (snd (addon_vulns_loop w vs addon lg)) = None"
proof (induction vs arbitrary: addon lg)
  case Nil
  then show ?case by simp
next
  case (Cons v vs)
  show ?case
  proof (cases "LooseVersion_lt (LooseVersion (Some (version addon))) (LooseVersion (fixed_in v))")
    case (Inl e)
    then have "e = TypeError \<or> e = AttributeError" by (rule LooseVersion_lt_raises)
    then show ?thesis using Inl by (auto simp: Cons.IH stored_for_def)
  next
    case (Inr b)
    then show ?thesis by (cases b) (simp_all add: Cons.IH stored_for_def)
  qed
qed

lemma check_vulns_addon_200:
  assumes "requests_get w (addon_vulns_request self addon) = Response r"
    and "status_code r = 200"
    and "json r (name addon) = Some vs"
  shows "\<exists>lg. check_vulns_addon w self addon =
           (addon\<lparr>vulns := vulns addon @ concat (map (stored_for w (version addon)) vs),
                   cve := (if vulns addon @ concat (map (stored_for w (version addon)) vs) \<noteq> []
                           then ''YES'' else ''NO'')\<rparr>,
            lg, Inr (PyList vs, None))"
proof -
  have rs: "raise_for_status r = None"
    using assms(2) by (simp add: raise_for_status_def)
  obtain lg where "addon_vulns_loop w vs addon (print_cms ''info'' ''[+] CVE list'' [] 1) =
      (addon\<lparr>vulns := vulns addon @ concat (map (stored_for w (version addon)) vs)\<rparr>, lg, None)"
    using addon_vulns_loop_eq [of w vs addon "print_cms ''info'' ''[+] CVE list'' [] 1"]
    by (cases "addon_vulns_loop w vs addon (print_cms ''info'' ''[+] CVE list'' [] 1)") simp
  then show ?thesis using assms rs by (simp add: check_vulns_addon_def)
qed

lemma addon_vulns_loop_None: "addon_vulns_loop w vs addon lg \<noteq> (addon', lg', Some e)"
  using addon_vulns_loop_eq [of w vs addon lg] by auto

text \<open>
  C2. When the vulnerability database answers 200 with the addon's entries,
  \<^verbatim>\<open>check_vulns_addon\<close> does not raise: it returns the entries with no error. For every
  entry for which the comparison of the installed version with \<^verbatim>\<open>fixed_in\<close> raises, the
  addon's list of vulnerabilities afterwards holds the record of that entry whose name is
  the entry's title prefixed by \<^verbatim>\<open>" To check : "\<close>, with the entry's link, type and
  \<^verbatim>\<open>fixed_in\<close> and the outcome of the proof-of-concept probe, and the \<^verbatim>\<open>cve\<close> flag is
  \<^verbatim>\<open>YES\<close>.
\<close>

theorem incomparable_versions_are_kept:
  assumes "requests_get w (addon_vulns_request self addon) = Response r"
    and "status_code r = 200"
    and "json r (name addon) = Some vs"
  shows "\<exists>addon' lg. check_vulns_addon w self addon = (addon', lg, Inr (PyList vs, None)) \<and>
           (\<forall>vuln \<in> set vs. \<forall>e.
              LooseVersion_lt (LooseVersion (Some (version addon))) (LooseVersion (fixed_in vuln)) = Inl e
              \<longrightarrow> \<lparr>vd_name = '' To check : '' @ title vuln,
                    vd_link = ''https://wpvulndb.com/vulnerabilities/'' @ str_nat (vuln_id vuln),
                    vd_type = vuln_type vuln,
                    vd_poc = (if get_poc w (''https://wpvulndb.com/vulnerabilities/'' @
                                            str_nat (vuln_id vuln))
                              then ''YES'' else ''CHECK''),
                    vd_fixed_in = fixed_in vuln\<rparr> \<in> set (vulns addon') \<and>
                  cve addon' = ''YES'')"
proof -
  define entry where "entry vuln =
         \<lparr>vd_name = '' To check : '' @ title vuln,
          vd_link = ''https://wpvulndb.com/vulnerabilities/'' @ str_nat (vuln_id vuln),
          vd_type = vuln_type vuln,
          vd_poc = (if get_poc w (''https://wpvulndb.com/vulnerabilities/'' @ str_nat (vuln_id vuln))
                    then ''YES'' else ''CHECK''),
          vd_fixed_in = fixed_in vuln\<rparr>" for vuln :: vuln
  define stored where "stored = concat (map (stored_for w (version addon)) vs)"
  define addon' where "addon' =
     addon\<lparr>vulns := vulns addon @ stored,
            cve := (if vulns addon @ stored \<noteq> [] then ''YES'' else ''NO'')\<rparr>"
  obtain lg where c: "check_vulns_addon w self addon = (addon', lg, Inr (PyList vs, None))"
    using check_vulns_addon_200 [OF assms] unfolding addon'_def stored_def by blast
  have details: "addon_vuln_details w '' To check : '' vuln = entry vuln" for vuln
    by (simp add: addon_vuln_details_def url_details_def entry_def Let_def)
  have mem: "entry vuln \<in> set stored"
    if "vuln \<in> set vs"
      and "LooseVersion_lt (LooseVersion (Some (version addon))) (LooseVersion (fixed_in vuln)) = Inl e"
    for vuln e
  proof -
    have "stored_for w (version addon) vuln = [entry vuln]"
      using that(2) by (simp add: stored_for_def details)
    then show ?thesis using that(1) unfolding stored_def by force
  qed
  have "entry vuln \<in> set (vulns addon') \<and> cve addon' = ''YES''"
    if "vuln \<in> set vs"
      and "LooseVersion_lt (LooseVersion (Some (version addon))) (LooseVersion (fixed_in vuln)) = Inl e"
    for vuln e
  proof -
    have m: "entry vuln \<in> set stored" using that by (rule mem)
    then have "stored \<noteq> []" by auto
    then show ?thesis using m by (simp add: addon'_def)
  qed
  then have "\<forall>vuln \<in> set vs. \<forall>e.
      LooseVersion_lt (LooseVersion (Some (version addon))) (LooseVersion (fixed_in vuln)) = Inl e
      \<longrightarrow> entry vuln \<in> set (vulns addon') \<and> cve addon' = ''YES''"
    by blast
  then show ?thesis using c unfolding entry_def by blast
qed

text \<open>
  Installed 1.0: the entry that is not fixed (\<^verbatim>\<open>AttributeError\<close>) and the entry fixed in
  \<^verbatim>\<open>1.x\<close> (\<^verbatim>\<open>TypeError\<close>) are both kept, under the names
  \<^verbatim>\<open>" To check : Object injection"\<close> and \<^verbatim>\<open>" To check : CSRF"\<close>.
\<close>

theorem incomparable_versions_are_kept_witness:
  "requests_get vulndb_world (addon_vulns_request example_wp example_addon) =
     Response ((reply 200)\<lparr>json := [''foo'' \<mapsto> example_vulns, ''4.9.8'' \<mapsto> example_vulns]\<rparr>) \<and>
   \<lparr>vuln_id = 9173, title = ''Object injection'', vuln_type = ''RCE'', fixed_in = None\<rparr>
     \<in> set example_vulns \<and>
   LooseVersion_lt (LooseVersion (Some (version example_addon))) (LooseVersion None) = Inl AttributeError \<and>
   \<lparr>vuln_id = 9174, title = ''CSRF'', vuln_type = ''CSRF'', fixed_in = Some ''1.x''\<rparr>
     \<in> set example_vulns \<and>
   LooseVersion_lt (LooseVersion (Some (version example_addon))) (LooseVersion (Some ''1.x'')) = Inl TypeError \<and>
   snd (snd (check_vulns_addon vulndb_world example_wp example_addon)) = Inr (PyList example_vulns, None) \<and>
   \<lparr>vd_name = '' To check : Object injection'',
     vd_link = ''https://wpvulndb.com/vulnerabilities/9173'', vd_type = ''RCE'',
     vd_poc = ''CHECK'', vd_fixed_in = None\<rparr>
     \<in> set (vulns (fst (check_vulns_addon vulndb_world example_wp example_addon))) \<and>
   \<lparr>vd_name = '' To check : CSRF'',
     vd_link = ''https://wpvulndb.com/vulnerabilities/9174'', vd_type = ''CSRF'',
     vd_poc = ''CHECK'', vd_fixed_in = Some ''1.x''\<rparr>
     \<in> set (vulns (fst (check_vulns_addon vulndb_world example_wp example_addon))) \<and>
   cve (fst (check_vulns_addon vulndb_world example_wp example_addon)) = ''YES''"
proof -
  let ?r = "(reply 200)\<lparr>json := [''foo'' \<mapsto> example_vulns, ''4.9.8'' \<mapsto> example_vulns]\<rparr>"
  let ?v3 = "\<lparr>vuln_id = 9173, title = ''Object injection'', vuln_type = ''RCE'', fixed_in = None\<rparr>"
  let ?v4 = "\<lparr>vuln_id = 9174, title = ''CSRF'', vuln_type = ''CSRF'', fixed_in = Some ''1.x''\<rparr>"
  have a: "requests_get vulndb_world (addon_vulns_request example_wp example_addon) = Response ?r"
    by (simp add: vulndb_world_def offline_world_def)
  have b: "status_code ?r = 200" by (simp add: reply_def)
  have c: "json ?r (name example_addon) = Some example_vulns"
    by (simp add: example_addon_def new_addon_def)
  have m3: "?v3 \<in> set example_vulns" and m4: "?v4 \<in> set example_vulns"
    by (simp_all add: example_vulns_def)
  have v: "version example_addon = ''1.0''" by (simp add: example_addon_def)
  have e3: "LooseVersion_lt (LooseVersion (Some (version example_addon))) (LooseVersion None) = Inl AttributeError"
    unfolding v by code_simp
  have e4: "LooseVersion_lt (LooseVersion (Some (version example_addon))) (LooseVersion (Some ''1.x'')) = Inl TypeError"
    unfolding v by code_simp
  have s3: "str_nat 9173 = ''9173''" and s4: "str_nat 9174 = ''9174''"
    by (simp_all add: str_nat.simps char_of_def bit_0)
  have p: "get_poc vulndb_world u = False" for u
    by (simp add: vulndb_world_def offline_world_def)
  obtain addon' lg where r: "check_vulns_addon vulndb_world example_wp example_addon =
      (addon', lg, Inr (PyList example_vulns, None))"
    and k: "\<forall>vuln \<in> set example_vulns. \<forall>e.
              LooseVersion_lt (LooseVersion (Some (version example_addon))) (LooseVersion (fixed_in vuln)) = Inl e
              \<longrightarrow> \<lparr>vd_name = '' To check : '' @ title vuln,
                    vd_link = ''https://wpvulndb.com/vulnerabilities/'' @ str_nat (vuln_id vuln),
                    vd_type = vuln_type vuln,
                    vd_poc = (if get_poc vulndb_world (''https://wpvulndb.com/vulnerabilities/'' @
                                            str_nat (vuln_id vuln))
                              then ''YES'' else ''CHECK''),
                    vd_fixed_in = fixed_in vuln\<rparr> \<in> set (vulns addon') \<and>
                  cve addon' = ''YES''"
    using incomparable_versions_are_kept [OF a b c] by blast
  have k3: "\<lparr>vd_name = '' To check : Object injection'',
              vd_link = ''https://wpvulndb.com/vulnerabilities/9173'', vd_type = ''RCE'',
              vd_poc = ''CHECK'', vd_fixed_in = None\<rparr> \<in> set (vulns addon') \<and> cve addon' = ''YES''"
    using k [rule_format, OF m3, of AttributeError] e3 by (simp add: s3 p)
  have k4: "\<lparr>vd_name = '' To check : CSRF'',
              vd_link = ''https://wpvulndb.com/vulnerabilities/9174'', vd_type = ''CSRF'',
              vd_poc = ''CHECK'', vd_fixed_in = Some ''1.x''\<rparr> \<in> set (vulns addon')"
    using k [rule_format, OF m4, of TypeError] e4 by (simp add: s4 p)
  show ?thesis
    using a m3 m4 e3 e4 k3 k4 r by simp
qed

text \<open>
  C5, as the code has it, each check for its own request. When the vulnerability database
  answers the addon's request with an HTTP error status (400 to 599, which includes 404),
  \<^verbatim>\<open>check_vulns_addon\<close> sets \<^verbatim>\<open>cve\<close> to \<^verbatim>\<open>NO\<close>, writes nothing else and returns the
  empty string with the error; on any other status that is not 200 it writes nothing and
  returns the empty list. When the database answers the core's request with any status
  that is not 200, \<^verbatim>\<open>check_vulns_core\<close> returns an empty result and does not raise: the
  empty string with the error for an HTTP error status, the empty list with no error
  otherwise.
\<close>

theorem http_error_from_vulndb:
  "(requests_get w (addon_vulns_request self addon) = Response r \<and>
      400 \<le> status_code r \<and> status_code r < 600 \<longrightarrow>
    check_vulns_addon w self addon =
      (addon\<lparr>cve := ''NO''\<rparr>, [(''info'', ''[+] No entry on wpvulndb.'', [], 1)],
       Inr (PyStr [], Some (HTTPError (status_code r))))) \<and>
   (requests_get w (addon_vulns_request self addon) = Response r \<and>
      status_code r \<noteq> 200 \<and> (status_code r < 400 \<or> 600 \<le> status_code r) \<longrightarrow>
    check_vulns_addon w self addon = (addon, [], Inr (PyList [], None))) \<and>
   (requests_get w (core_vulns_request self version_core) = Response r' \<and>
      status_code r' \<noteq> 200 \<longrightarrow>
    check_vulns_core w self version_core =
      (if 400 \<le> status_code r' \<and> status_code r' < 600
       then ([(''info'', ''No entry on wpvulndb.'', [], 1)],
             Inr (PyStr [], Some (HTTPError (status_code r'))))
       else ([], Inr (PyList [], None))))"
  by (auto simp: check_vulns_addon_def check_vulns_core_def raise_for_status_def print_cms_def)

text \<open>Both checks against a database that answers 404, and one that answers 204.\<close>

theorem http_error_from_vulndb_witness:
  "requests_get (answering 404) (addon_vulns_request example_wp example_addon) = Response (reply 404) \<and>
   status_code (reply 404) = 404 \<and>
   check_vulns_addon (answering 404) example_wp example_addon =
     (example_addon\<lparr>cve := ''NO''\<rparr>, [(''info'', ''[+] No entry on wpvulndb.'', [], 1)],
      Inr (PyStr [], Some (HTTPError 404))) \<and>
   requests_get (answering 204) (addon_vulns_request example_wp example_addon) = Response (reply 204) \<and>
   status_code (reply 204) = 204 \<and>
   check_vulns_addon (answering 204) example_wp example_addon =
     (example_addon, [], Inr (PyList [], None)) \<and>
   requests_get (answering 404) (core_vulns_request example_wp ''4.9.8'') = Response (reply 404) \<and>
   check_vulns_core (answering 404) example_wp ''4.9.8'' =
     ([(''info'', ''No entry on wpvulndb.'', [], 1)], Inr (PyStr [], Some (HTTPError 404))) \<and>
   requests_get (answering 204) (core_vulns_request example_wp ''4.9.8'') = Response (reply 204) \<and>
   check_vulns_core (answering 204) example_wp ''4.9.8'' = ([], Inr (PyList [], None))"
proof -
  have g: "requests_get (answering code) req = Response (reply code)" for code req
    by (simp add: answering_def offline_world_def)
  have s: "status_code (reply code) = code" for code
    by (simp add: reply_def)
  note t404 = http_error_from_vulndb
                [of "answering 404" example_wp example_addon "reply 404" "''4.9.8''" "reply 404"]
  note t204 = http_error_from_vulndb
                [of "answering 204" example_wp example_addon "reply 204" "''4.9.8''" "reply 204"]
  have a404: "check_vulns_addon (answering 404) example_wp example_addon =
     (example_addon\<lparr>cve := ''NO''\<rparr>, [(''info'', ''[+] No entry on wpvulndb.'', [], 1)],
      Inr (PyStr [], Some (HTTPError 404)))"
    using t404 by (simp add: g s)
  have c404: "check_vulns_core (answering 404) example_wp ''4.9.8'' =
     ([(''info'', ''No entry on wpvulndb.'', [], 1)], Inr (PyStr [], Some (HTTPError 404)))"
    using t404 by (simp add: g s)
  have a204: "check_vulns_addon (answering 204) example_wp example_addon =
     (example_addon, [], Inr (PyList [], None))"
    using t204 by (simp add: g s)
  have c204: "check_vulns_core (answering 204) example_wp ''4.9.8'' = ([], Inr (PyList [], None))"
    using t204 by (simp add: g s)
  show ?thesis by (intro conjI g s a404 c404 a204 c204)
qed

text \<open>
  C5 as stated fails for a status that is neither 200 nor an HTTP error: on a 204 answer
  \<^verbatim>\<open>check_vulns_addon\<close> leaves \<^verbatim>\<open>cve\<close> as it was, here empty. On a 404 answer
  \<^verbatim>\<open>check_vulns_core\<close> hands the HTTP error back to its caller with the empty result.
\<close>

theorem non_200_without_error_counterexample:
  "requests_get (answering 204) (addon_vulns_request example_wp example_addon) = Response (reply 204) \<and>
   status_code (reply 204) \<noteq> 200 \<and>
   cve (fst (check_vulns_addon (answering 204) example_wp example_addon)) = [] \<and>
   cve (fst (check_vulns_addon (answering 204) example_wp example_addon)) \<noteq> ''NO'' \<and>
   snd (check_vulns_core (answering 404) example_wp ''4.9.8'') =
     Inr (PyStr [], Some (HTTPError 404))"
  by (simp add: answering_def offline_world_def reply_def check_vulns_addon_def
        check_vulns_core_def raise_for_status_def example_addon_def new_addon_def)

section \<open>What a failing stage writes\<close>

text \<open>
  C4, as the code has it. A stage that reports a failure (it returns an error as the second
  component) has written exactly one field: \<^verbatim>\<open>get_addon_last_version\<close> and
  \<^verbatim>\<open>check_addon_alteration\<close> have set \<^verbatim>\<open>notes\<close>, \<^verbatim>\<open>check_vulns_addon\<close> has set \<^verbatim>\<open>cve\<close> to
  \<^verbatim>\<open>NO\<close>. Every other field is as it was before the stage.
\<close>

theorem failure_paths_write_one_field:
  "(get_addon_last_version w addon = (addon1, lg1, Inr (v1, Some e1)) \<longrightarrow>
      addon1 = addon\<lparr>addon_notes := ''Addon not on official site. Search manually !''\<rparr>) \<and>
   (check_addon_alteration w addon addon_path temp_directory = (addon2, lg2, Inr (v2, Some e2)) \<longrightarrow>
      addon2 = addon\<lparr>addon_notes := ''The download link is not standard. Search manually !''\<rparr>) \<and>
   (check_vulns_addon w self addon = (addon3, lg3, Inr (v3, Some e3)) \<longrightarrow>
      addon3 = addon\<lparr>cve := ''NO''\<rparr>)"
proof (intro conjI impI)
  assume "get_addon_last_version w addon = (addon1, lg1, Inr (v1, Some e1))"
  then show "addon1 = addon\<lparr>addon_notes := ''Addon not on official site. Search manually !''\<rparr>"
    by (auto simp: get_addon_last_version_def Let_def
             split: http_result.splits option.splits if_splits prod.splits)
next
  assume "check_addon_alteration w addon addon_path temp_directory = (addon2, lg2, Inr (v2, Some e2))"
  then show "addon2 = addon\<lparr>addon_notes := ''The download link is not standard. Search manually !''\<rparr>"
    by (auto simp: check_addon_alteration_def Let_def
             split: http_result.splits option.splits if_splits sum.splits)
next
  assume "check_vulns_addon w self addon = (addon3, lg3, Inr (v3, Some e3))"
  then show "addon3 = addon\<lparr>cve := ''NO''\<rparr>"
    by (auto simp: check_vulns_addon_def Let_def addon_vulns_loop_None
             split: http_result.splits option.splits if_splits prod.splits py_exn.splits)
qed

text \<open>The three stages against servers that answer 404.\<close>

theorem failure_paths_write_one_field_witness:
  "snd (snd (get_addon_last_version (answering 404) example_addon)) =
     Inr ([], Some (HTTPError 404)) \<and>
   fst (get_addon_last_version (answering 404) example_addon) =
     example_addon\<lparr>addon_notes := ''Addon not on official site. Search manually !''\<rparr> \<and>
   snd (snd (check_addon_alteration (answering 404) example_addon ''/srv/www/wp-content/plugins/foo''
          ''/tmp/comission'')) =
     Inr (''The download link is not standard. Search manually !'', Some (HTTPError 404)) \<and>
   fst (check_addon_alteration (answering 404) example_addon ''/srv/www/wp-content/plugins/foo''
          ''/tmp/comission'') =
     example_addon\<lparr>addon_notes := ''The download link is not standard. Search manually !''\<rparr> \<and>
   snd (snd (check_vulns_addon (answering 404) example_wp example_addon)) =
     Inr (PyStr [], Some (HTTPError 404)) \<and>
   fst (check_vulns_addon (answering 404) example_wp example_addon) = example_addon\<lparr>cve := ''NO''\<rparr>"
proof -
  let ?w = "answering 404"
  let ?p = "''/srv/www/wp-content/plugins/foo''" and ?t = "''/tmp/comission''"
  let ?m = "''The download link is not standard. Search manually !''"
  have rs: "raise_for_status (reply 404) = Some (HTTPError 404)"
    by (simp add: raise_for_status_def reply_def)
  have g: "requests_get ?w req = Response (reply 404)" for req
    by (simp add: answering_def offline_world_def)
  have s1: "snd (snd (get_addon_last_version ?w example_addon)) = Inr ([], Some (HTTPError 404))"
    by (simp add: get_addon_last_version_def g rs Let_def)
  have s2: "snd (snd (check_addon_alteration ?w example_addon ?p ?t)) = Inr (?m, Some (HTTPError 404))"
    by (simp add: check_addon_alteration_def g rs Let_def)
  have s3: "snd (snd (check_vulns_addon ?w example_wp example_addon)) =
              Inr (PyStr [], Some (HTTPError 404))"
    by (simp add: check_vulns_addon_def g rs Let_def)
  have h1: "get_addon_last_version ?w example_addon =
              (fst (get_addon_last_version ?w example_addon),
               fst (snd (get_addon_last_version ?w example_addon)), Inr ([], Some (HTTPError 404)))"
    by (simp add: prod_eq_iff s1)
  have h2: "check_addon_alteration ?w example_addon ?p ?t =
              (fst (check_addon_alteration ?w example_addon ?p ?t),
               fst (snd (check_addon_alteration ?w example_addon ?p ?t)),
               Inr (?m, Some (HTTPError 404)))"
    by (simp add: prod_eq_iff s2)
  have h3: "check_vulns_addon ?w example_wp example_addon =
              (fst (check_vulns_addon ?w example_wp example_addon),
               fst (snd (check_vulns_addon ?w example_wp example_addon)),
               Inr (PyStr [], Some (HTTPError 404)))"
    by (simp add: prod_eq_iff s3)
  note t = failure_paths_write_one_field
             [of ?w example_addon "fst (get_addon_last_version ?w example_addon)"
                 "fst (snd (get_addon_last_version ?w example_addon))" "[]" "HTTPError 404"
                 ?p ?t "fst (check_addon_alteration ?w example_addon ?p ?t)"
                 "fst (snd (check_addon_alteration ?w example_addon ?p ?t))" ?m "HTTPError 404"
                 example_wp "fst (check_vulns_addon ?w example_wp example_addon)"
                 "fst (snd (check_vulns_addon ?w example_wp example_addon))" "PyStr []"
                 "HTTPError 404"]
  have c1: "fst (get_addon_last_version ?w example_addon) =
              example_addon\<lparr>addon_notes := ''Addon not on official site. Search manually !''\<rparr>"
    using t h1 by blast
  have c2: "fst (check_addon_alteration ?w example_addon ?p ?t) = example_addon\<lparr>addon_notes := ?m\<rparr>"
    using t h2 by blast
  have c3: "fst (check_vulns_addon ?w example_wp example_addon) = example_addon\<lparr>cve := ''NO''\<rparr>"
    using t h3 by blast
  show ?thesis by (intro conjI s1 s2 s3 c1 c2 c3)
qed

text \<open>
  C4 as stated fails for \<^verbatim>\<open>check_vulns_addon\<close>: on a 404 answer it reports the failure,
  leaves \<^verbatim>\<open>notes\<close> as it was and changes \<^verbatim>\<open>cve\<close> from empty to \<^verbatim>\<open>NO\<close>.
\<close>

theorem check_vulns_addon_failure_counterexample:
  "snd (snd (check_vulns_addon (answering 404) example_wp example_addon)) =
     Inr (PyStr [], Some (HTTPError 404)) \<and>
   addon_notes (fst (check_vulns_addon (answering 404) example_wp example_addon)) =
     addon_notes example_addon \<and>
   cve (fst (check_vulns_addon (answering 404) example_wp example_addon)) = ''NO'' \<and>
   cve example_addon = []"
  by (simp add: answering_def offline_world_def reply_def check_vulns_addon_def
        raise_for_status_def example_addon_def new_addon_def)

section \<open>The run over all addons\<close>


























end
